theory Spec2Isabelle
  imports Main "HOL-Library.AList"
begin

section \<open>Values shared by all components\<close>

text \<open>
  A JavaScript \<^verbatim>\<open>Date\<close> is an instant in milliseconds since the epoch, or the
  invalid date (whose time value is NaN).
\<close>

datatype Date = Instant int | InvalidDate

text \<open>
  A value of type \<^verbatim>\<open>any\<close> that came out of \<^verbatim>\<open>JSON.parse\<close> (a response body, a
  metadata entry, the content of the session file). Numbers are the integers.
\<close>

datatype json =
    JNull
  | JBool bool
  | JNum int
  | JStr string
  | JArr "json list"
  | JObj "(string \<times> json) list"

text \<open>JavaScript truthiness; \<open>None\<close> is \<^verbatim>\<open>undefined\<close>.\<close>

fun truthy :: "json \<Rightarrow> bool" where
  "truthy JNull = False"
| "truthy (JBool b) = b"
| "truthy (JNum n) = (n \<noteq> 0)"
| "truthy (JStr s) = (s \<noteq> [])"
| "truthy (JArr xs) = True"
| "truthy (JObj kvs) = True"

definition truthyOpt :: "json option \<Rightarrow> bool" where
  "truthyOpt v = (case v of None \<Rightarrow> False | Some j \<Rightarrow> truthy j)"

text \<open>Property access \<^verbatim>\<open>v.key\<close> on a value that is not null: only objects have own keys.\<close>

fun jsProp :: "json \<Rightarrow> string \<Rightarrow> json option" where
  "jsProp (JObj kvs) key = map_of kvs key"
| "jsProp v key = None"

subsection \<open>Strings\<close>

fun startsWith :: "string \<Rightarrow> string \<Rightarrow> bool" where
  "startsWith s [] = True"
| "startsWith [] (p # ps) = False"
| "startsWith (c # cs) (p # ps) = (c = p \<and> startsWith cs ps)"

text \<open>\<^verbatim>\<open>s.includes(pattern)\<close>.\<close>

fun str_includes :: "string \<Rightarrow> string \<Rightarrow> bool" where
  "str_includes [] pattern = (pattern = [])"
| "str_includes (c # cs) pattern = (startsWith (c # cs) pattern \<or> str_includes cs pattern)"

definition digitChar :: "nat \<Rightarrow> char" where
  "digitChar d = ''0123456789'' ! d"

fun showNat :: "nat \<Rightarrow> string" where
  "showNat n = (if n < 10 then [digitChar n] else showNat (n div 10) @ [digitChar (n mod 10)])"

declare showNat.simps [simp del]

definition showInt :: "int \<Rightarrow> string" where
  "showInt i = (if i < 0 then CHR ''-'' # showNat (nat (- i)) else showNat (nat i))"

fun joinWith :: "string \<Rightarrow> string list \<Rightarrow> string" where
  "joinWith sep [] = []"
| "joinWith sep [x] = x"
| "joinWith sep (x # y # ys) = x @ sep @ joinWith sep (y # ys)"

text \<open>\<^verbatim>\<open>String(v)\<close>; inside an array \<^verbatim>\<open>null\<close> renders as the empty string.\<close>

fun jsString :: "json \<Rightarrow> string" where
  "jsString JNull = ''null''"
| "jsString (JBool b) = (if b then ''true'' else ''false'')"
| "jsString (JNum n) = showInt n"
| "jsString (JStr s) = s"
| "jsString (JArr xs) = joinWith '','' (map (\<lambda>x. if x = JNull then [] else jsString x) xs)"
| "jsString (JObj kvs) = ''[object Object]''"

text \<open>\<^verbatim>\<open>s.padStart(2, '0')\<close>.\<close>

definition padStart2 :: "string \<Rightarrow> string" where
  "padStart2 s = replicate (2 - length s) CHR ''0'' @ s"

text \<open>
  The text of the number \<^verbatim>\<open>ms / 1000\<close>: the seconds, and the milliseconds as a decimal
  fraction without trailing zeros when there are any.
\<close>

definition stripTrailingZeros :: "string \<Rightarrow> string" where
  "stripTrailingZeros s = rev (dropWhile (\<lambda>ch. ch = CHR ''0'') (rev s))"

definition showSeconds :: "int \<Rightarrow> string" where
  "showSeconds ms =
     (let a = nat \<bar>ms\<bar>; q = a div 1000; r = a mod 1000;
          frac = stripTrailingZeros (replicate (3 - length (showNat r)) CHR ''0'' @ showNat r)
      in (if ms < 0 then ''-'' else []) @ showNat q @ (if r = 0 then [] else ''.'' @ frac))"

section \<open>Session state (src/transport/session-manager.ts)\<close>

text \<open>
  \<^verbatim>\<open>interface Session { cookies: string[]; tokens?: Record<string, string>; expiresAt?: Date }\<close>.
  An optional field is an \<open>option\<close>; a string-keyed record is an association list in
  insertion order.
\<close>

record Session =
  cookies :: "string list"
  tokens :: "(string \<times> string) list option"
  expiresAt :: "Date option"

record SessionManager =
  session :: "Session option"
  sessionFilePath :: "string option"

definition freshManager :: SessionManager where
  "freshManager = \<lparr>session = None, sessionFilePath = None\<rparr>"

definition setSession :: "Session \<Rightarrow> SessionManager \<Rightarrow> SessionManager" where
  "setSession s sm = sm\<lparr>session := Some s\<rparr>"

definition getSession :: "SessionManager \<Rightarrow> Session option" where
  "getSession sm = session sm"

definition getCookies :: "SessionManager \<Rightarrow> string list" where
  "getCookies sm = (case session sm of Some s \<Rightarrow> cookies s | None \<Rightarrow> [])"

definition getTokens :: "SessionManager \<Rightarrow> (string \<times> string) list" where
  "getTokens sm =
     (case session sm of
        Some s \<Rightarrow> (case tokens s of Some t \<Rightarrow> t | None \<Rightarrow> [])
      | None \<Rightarrow> [])"

text \<open>\<^verbatim>\<open>const [name] = cookie.split('=')\<close>: the text before the first \<^verbatim>\<open>=\<close>.\<close>

definition cookieName :: "string \<Rightarrow> string" where
  "cookieName cookie = takeWhile (\<lambda>ch. ch \<noteq> CHR ''='') cookie"

text \<open>
  \<^verbatim>\<open>if (name) { existingCookies.set(name, cookie) }\<close> on a JavaScript \<^verbatim>\<open>Map\<close>: a
  known key keeps its position and gets the new value, a new key goes to the end.
\<close>

definition setCookie :: "string \<Rightarrow> (string \<times> string) list \<Rightarrow> (string \<times> string) list" where
  "setCookie cookie existingCookies =
     (if cookieName cookie \<noteq> [] then AList.update (cookieName cookie) cookie existingCookies
      else existingCookies)"

definition mergeCookies :: "string list \<Rightarrow> string list \<Rightarrow> string list" where
  "mergeCookies current incoming =
     map snd (fold setCookie incoming (fold setCookie current []))"

definition updateCookies :: "string list \<Rightarrow> SessionManager \<Rightarrow> SessionManager" where
  "updateCookies cs sm =
     (case session sm of
        Some s \<Rightarrow> sm\<lparr>session := Some (s\<lparr>cookies := mergeCookies (cookies s) cs\<rparr>)\<rparr>
      | None \<Rightarrow> sm\<lparr>session := Some \<lparr>cookies = cs, tokens = Some [], expiresAt = None\<rparr>\<rparr>)"

text \<open>\<^verbatim>\<open>{ ...this.session.tokens, ...tokens }\<close>: the incoming entries overlay the old ones.\<close>

definition spreadTokens :: "(string \<times> string) list \<Rightarrow> (string \<times> string) list \<Rightarrow> (string \<times> string) list" where
  "spreadTokens old new = fold (\<lambda>kv acc. AList.update (fst kv) (snd kv) acc) new old"

definition updateTokens :: "(string \<times> string) list \<Rightarrow> SessionManager \<Rightarrow> SessionManager" where
  "updateTokens ts sm =
     (case session sm of
        Some s \<Rightarrow>
          sm\<lparr>session := Some (s\<lparr>tokens :=
                Some (spreadTokens (case tokens s of Some t \<Rightarrow> t | None \<Rightarrow> []) ts)\<rparr>)\<rparr>
      | None \<Rightarrow> sm\<lparr>session := Some \<lparr>cookies = [], tokens = Some ts, expiresAt = None\<rparr>\<rparr>)"

definition clearSession :: "SessionManager \<Rightarrow> SessionManager" where
  "clearSession sm = sm\<lparr>session := None\<rparr>"

text \<open>
  \<^verbatim>\<open>new Date() >= expiresAt\<close>, with the current time \<open>now\<close> in milliseconds. A comparison
  with the invalid date is false.
\<close>

definition isExpiredForSession :: "int \<Rightarrow> Session \<Rightarrow> bool" where
  "isExpiredForSession now s =
     (case expiresAt s of
        None \<Rightarrow> False
      | Some InvalidDate \<Rightarrow> False
      | Some (Instant t) \<Rightarrow> now \<ge> t)"

definition isExpired :: "int \<Rightarrow> SessionManager \<Rightarrow> bool" where
  "isExpired now sm =
     (case session sm of None \<Rightarrow> False | Some s \<Rightarrow> isExpiredForSession now s)"

subsection \<open>Reading a cookie list by name\<close>

definition cookieFor :: "string \<Rightarrow> string list \<Rightarrow> string option" where
  "cookieFor n cs = find (\<lambda>c. cookieName c = n) cs"

definition lastNamed :: "string \<Rightarrow> string list \<Rightarrow> string option" where
  "lastNamed n cs = find (\<lambda>c. cookieName c = n) (rev cs)"

text \<open>The shape of the name-keyed map built inside \<^verbatim>\<open>updateCookies\<close>.\<close>

definition wf_jar :: "(string \<times> string) list \<Rightarrow> bool" where
  "wf_jar m \<longleftrightarrow>
     distinct (map fst m) \<and> (\<forall>p \<in> set m. cookieName (snd p) = fst p \<and> fst p \<noteq> [])"

section \<open>Types (src/types/index.ts, src/models/canonical.ts)\<close>

datatype EMRType = WellSky | AxisCare | AlayaCare

datatype ErrorType = Authentication | Network | Validation | EMRSpecific

text \<open>
  \<^verbatim>\<open>HTTPRequestOptions\<close> with the url and the method. A form body is kept as the list of
  pairs that \<^verbatim>\<open>URLSearchParams.toString()\<close> encodes.
\<close>

record HTTPRequest =
  url :: string
  req_method :: string
  req_headers :: "(string \<times> string) list"
  req_body :: "(string \<times> string) list option"
  req_cookies :: "string list"
  followRedirects :: bool

text \<open>\<^verbatim>\<open>HTTPResponse\<close>: a text body is \<open>JStr\<close>, a parsed JSON body any other value.\<close>

record HTTPResponse =
  status :: int
  statusText :: string
  headers :: "(string \<times> string) list"
  body :: json
  resp_cookies :: "string list"

record Task =
  task_id :: "string option"
  task_name :: string
  completed :: bool
  task_notes :: "string option"

text \<open>
  \<^verbatim>\<open>VisitNote\<close>. The record arrives from parsed input, so a field the type calls a string
  can be \<^verbatim>\<open>undefined\<close> at run time: \<open>None\<close>.
\<close>

record VisitNote =
  visitId :: "string option"
  patientId :: "string option"
  caregiverId :: "string option"
  visitDate :: "Date option"
  startTime :: "string option"
  endTime :: "string option"
  noteText :: "string option"
  tasks :: "Task list option"
  metadata :: "(string \<times> json) list option"

text \<open>\<^verbatim>\<open>WellSkyVisitNoteRequest\<close> (src/adapters/wellsky-adapter.ts).\<close>

record WellSkyVisitNoteRequest =
  carelog :: string
  shift :: string
  unavailability :: string
  date :: string
  tags :: json
  req_note :: "string option"
  show_with_billing :: string
  show_with_payroll :: string
  csrfmiddlewaretoken :: "string option"

record PostResult =
  success :: bool
  result_visitId :: "string option"
  timestamp :: int
  request :: "WellSkyVisitNoteRequest option"
  response :: "json option"
  error :: "string option"

text \<open>
  What a \<^verbatim>\<open>throw\<close> can carry. \<open>JsError name message\<close> is an \<^verbatim>\<open>Error\<close> (or a subclass
  named \<open>name\<close>) without further properties; \<open>EMRAdapterError message type emrType
  originalError\<close> is the class of src/types/index.ts; \<open>JsValue message status text\<close> is any
  other value, with its \<^verbatim>\<open>message\<close> and \<^verbatim>\<open>status\<close> properties when it has them and
  its \<^verbatim>\<open>String()\<close> rendering. The \<open>cause\<close> is the \<^verbatim>\<open>originalError\<close> argument.
\<close>

datatype thrown =
    JsUndefined
  | JsError string string
  | EMRAdapterError string ErrorType EMRType cause
  | JsValue "string option" "int option" string
and cause =
    NoCause
  | ResponseCause HTTPResponse
  | SessionLost int int
  | ForbiddenDetail int string "(string \<times> string) list" string WellSkyVisitNoteRequest string
  | Caught thrown

fun messageProp :: "thrown \<Rightarrow> string option" where
  "messageProp JsUndefined = None"
| "messageProp (JsError name msg) = Some msg"
| "messageProp (EMRAdapterError msg ty emr orig) = Some msg"
| "messageProp (JsValue msg st txt) = msg"

fun statusProp :: "thrown \<Rightarrow> int option" where
  "statusProp (JsValue msg st txt) = st"
| "statusProp e = None"

fun typeProp :: "thrown \<Rightarrow> ErrorType option" where
  "typeProp (EMRAdapterError msg ty emr orig) = Some ty"
| "typeProp e = None"

fun isEMRAdapterError :: "thrown \<Rightarrow> bool" where
  "isEMRAdapterError (EMRAdapterError msg ty emr orig) = True"
| "isEMRAdapterError e = False"

text \<open>\<^verbatim>\<open>Error.prototype.toString\<close>.\<close>

definition errorToString :: "string \<Rightarrow> string \<Rightarrow> string" where
  "errorToString name msg =
     (if name = [] then msg else if msg = [] then name else name @ '': '' @ msg)"

fun stringOf :: "thrown \<Rightarrow> string" where
  "stringOf JsUndefined = ''undefined''"
| "stringOf (JsError name msg) = errorToString name msg"
| "stringOf (EMRAdapterError msg ty emr orig) = errorToString ''EMRAdapterError'' msg"
| "stringOf (JsValue msg st txt) = txt"

text \<open>The text a template literal puts for \<^verbatim>\<open>${error.message}\<close>.\<close>

definition messageText :: "thrown \<Rightarrow> string" where
  "messageText e = (case messageProp e of Some m \<Rightarrow> m | None \<Rightarrow> ''undefined'')"

section \<open>Saving and loading the session (src/transport/session-manager.ts)\<close>

text \<open>
  The date functions of the runtime: \<^verbatim>\<open>toISOString()\<close> of a valid instant and
  \<^verbatim>\<open>new Date(text)\<close>.
\<close>

record JsDates =
  toISOString :: "int \<Rightarrow> string"
  parseDate :: "string \<Rightarrow> Date"

text \<open>
  A file holds a text that \<^verbatim>\<open>JSON.parse\<close> reads as a value (\<open>JsonText\<close>: what
  \<^verbatim>\<open>JSON.stringify\<close> of that value writes), a text it rejects (\<open>NotJson\<close>), or cannot be
  read at all. Writing to a path listed as read-only throws.
\<close>

datatype FileContent = JsonText json | NotJson string | Unreadable

record FileSystem =
  files :: "(string \<times> FileContent) list"
  readOnly :: "string list"

definition existsSync :: "FileSystem \<Rightarrow> string \<Rightarrow> bool" where
  "existsSync fs p \<longleftrightarrow> map_of (files fs) p \<noteq> None"

definition sessionTokens :: "Session \<Rightarrow> (string \<times> string) list" where
  "sessionTokens s = (case tokens s of Some t \<Rightarrow> t | None \<Rightarrow> [])"

text \<open>
  The object \<^verbatim>\<open>{ ...this.session, expiresAt: this.session.expiresAt?.toISOString() }\<close> as
  \<^verbatim>\<open>JSON.stringify\<close> writes it (undefined properties are left out); \<^verbatim>\<open>toISOString\<close> of
  the invalid date throws a RangeError.
\<close>

definition sessionData :: "JsDates \<Rightarrow> Session \<Rightarrow> thrown + json" where
  "sessionData dc s =
     (case expiresAt s of
        Some InvalidDate \<Rightarrow> Inl (JsError ''RangeError'' ''Invalid time value'')
      | ex \<Rightarrow>
          Inr (JObj ([(''cookies'', JArr (map JStr (cookies s)))]
                     @ (case tokens s of
                          Some t \<Rightarrow> [(''tokens'', JObj (map (\<lambda>kv. (fst kv, JStr (snd kv))) t))]
                        | None \<Rightarrow> [])
                     @ (case ex of
                          Some (Instant t) \<Rightarrow> [(''expiresAt'', JStr (toISOString dc t))]
                        | _ \<Rightarrow> []))))"

definition saveSession :: "JsDates \<Rightarrow> SessionManager \<Rightarrow> FileSystem \<Rightarrow> FileSystem" where
  "saveSession dc sm fs =
     (case session sm of
        None \<Rightarrow> fs
      | Some s \<Rightarrow>
          (case sessionFilePath sm of
             None \<Rightarrow> fs
           | Some p \<Rightarrow>
               if p = [] then fs
               else (case sessionData dc s of
                       Inl e \<Rightarrow> fs
                     | Inr data \<Rightarrow>
                         if p \<in> set (readOnly fs) then fs
                         else fs\<lparr>files := AList.update p (JsonText data) (files fs)\<rparr>)))"

text \<open>\<^verbatim>\<open>new Date(v)\<close> for a truthy parsed value.\<close>

definition newDate :: "JsDates \<Rightarrow> json \<Rightarrow> Date" where
  "newDate dc v =
     (case v of
        JStr s \<Rightarrow> parseDate dc s
      | JNum n \<Rightarrow> if \<bar>n\<bar> \<le> 8640000000000000 then Instant n else InvalidDate
      | JBool b \<Rightarrow> Instant (if b then 1 else 0)
      | JNull \<Rightarrow> Instant 0
      | _ \<Rightarrow> parseDate dc (jsString v))"

definition orDefault :: "json option \<Rightarrow> json \<Rightarrow> json" where
  "orDefault v d = (case v of Some j \<Rightarrow> if truthy j then j else d | None \<Rightarrow> d)"

text \<open>The declared types of the two fields: an array of strings, an object of strings.\<close>

fun asString :: "json \<Rightarrow> string option" where
  "asString (JStr s) = Some s"
| "asString v = None"

fun asStringList :: "json \<Rightarrow> string list option" where
  "asStringList (JArr xs) = those (map asString xs)"
| "asStringList v = None"

fun asTokens :: "json \<Rightarrow> (string \<times> string) list option" where
  "asTokens (JObj kvs) = those (map (\<lambda>kv. map_option (Pair (fst kv)) (asString (snd kv))) kvs)"
| "asTokens v = None"

text \<open>
  What \<^verbatim>\<open>loadSession\<close> returns: \<^verbatim>\<open>null\<close>, a session, or an object whose cookies or
  tokens are not of the declared types. The code does not check them and keeps that object
  as its session; the typed manager state here cannot hold it and is left as it was.
\<close>

datatype Loaded = LoadedNull | LoadedSession Session | LoadedUntyped

text \<open>
  The body of the \<^verbatim>\<open>try\<close> in \<^verbatim>\<open>loadSession\<close> on the parsed data, at time \<open>now\<close>. Reading
  a property of \<^verbatim>\<open>null\<close> throws, which the \<^verbatim>\<open>catch\<close> turns into \<^verbatim>\<open>null\<close>.
\<close>

definition sessionFromData ::
  "JsDates \<Rightarrow> int \<Rightarrow> json \<Rightarrow> SessionManager \<Rightarrow> Loaded \<times> SessionManager" where
  "sessionFromData dc now data sm =
     (if data = JNull then (LoadedNull, sm)
      else
        (let cookiesV = orDefault (jsProp data ''cookies'') (JArr []);
             tokensV = orDefault (jsProp data ''tokens'') (JObj []);
             expires = (case jsProp data ''expiresAt'' of
                          Some v \<Rightarrow> if truthy v then Some (newDate dc v) else None
                        | None \<Rightarrow> None)
         in if (case expires of Some (Instant t) \<Rightarrow> now \<ge> t | _ \<Rightarrow> False)
            then (LoadedNull, sm)
            else (case asStringList cookiesV of
                    None \<Rightarrow> (LoadedUntyped, sm)
                  | Some cs \<Rightarrow>
                      (case asTokens tokensV of
                         None \<Rightarrow> (LoadedUntyped, sm)
                       | Some ts \<Rightarrow>
                           (let s = \<lparr>cookies = cs, tokens = Some ts, expiresAt = expires\<rparr>
                            in (LoadedSession s, sm\<lparr>session := Some s\<rparr>))))))"

definition loadSession ::
  "JsDates \<Rightarrow> int \<Rightarrow> SessionManager \<Rightarrow> FileSystem \<Rightarrow> Loaded \<times> SessionManager" where
  "loadSession dc now sm fs =
     (case sessionFilePath sm of
        None \<Rightarrow> (LoadedNull, sm)
      | Some p \<Rightarrow>
          if p = [] \<or> \<not> existsSync fs p then (LoadedNull, sm)
          else (case map_of (files fs) p of
                  Some (JsonText data) \<Rightarrow> sessionFromData dc now data sm
                | _ \<Rightarrow> (LoadedNull, sm)))"

definition clearSessionFile :: "SessionManager \<Rightarrow> FileSystem \<Rightarrow> SessionManager \<times> FileSystem" where
  "clearSessionFile sm fs =
     (sm\<lparr>session := None\<rparr>,
      (case sessionFilePath sm of
         None \<Rightarrow> fs
       | Some p \<Rightarrow>
           if p \<noteq> [] \<and> existsSync fs p \<and> p \<notin> set (readOnly fs)
           then fs\<lparr>files := AList.update p (NotJson []) (files fs)\<rparr>
           else fs))"

section \<open>Retry policy (src/transport/retry-handler.ts)\<close>

record RetryConfig =
  maxAttempts :: int
  backoffMs :: int
  retryableErrors :: "string list"

text \<open>
  What an observer of \<^verbatim>\<open>execute\<close> sees besides its outcome: how often the operation
  was invoked and the delays passed to \<^verbatim>\<open>sleep\<close>, in order.
\<close>

record RetryTrace =
  invocations :: nat
  delays :: "int list"

definition noTrace :: RetryTrace where
  "noTrace = \<lparr>invocations = 0, delays = []\<rparr>"

text \<open>\<^verbatim>\<open>error?.message || String(error)\<close>.\<close>

definition errorMessage :: "thrown \<Rightarrow> string" where
  "errorMessage e =
     (case messageProp e of
        Some m \<Rightarrow> if m \<noteq> [] then m else stringOf e
      | None \<Rightarrow> stringOf e)"

definition shouldRetry :: "RetryConfig \<Rightarrow> thrown \<Rightarrow> bool" where
  "shouldRetry cfg e = list_ex (\<lambda>pattern. str_includes (errorMessage e) pattern) (retryableErrors cfg)"

text \<open>
  The \<^verbatim>\<open>while\<close> loop of \<^verbatim>\<open>execute\<close>, from the state \<open>(attempt, lastError)\<close>. The
  operation \<open>fn\<close> runs on a state \<open>'s\<close> and returns the value it resolves to (\<open>Inr\<close>) or
  the value it throws (\<open>Inl\<close>); \<open>sleep ms\<close> is what waiting for \<open>ms\<close> milliseconds does
  to that state.
\<close>

function execute_loop ::
  "RetryConfig \<Rightarrow> (int \<Rightarrow> 's \<Rightarrow> 's) \<Rightarrow> ('s \<Rightarrow> (thrown + 'a) \<times> 's) \<Rightarrow>
   (thrown \<Rightarrow> bool) option \<Rightarrow> nat \<Rightarrow> thrown \<Rightarrow> 's \<times> RetryTrace \<Rightarrow>
   (thrown + 'a) \<times> 's \<times> RetryTrace" where
  "execute_loop cfg sleep fn isRetryableError attempt lastError (s, tr) =
     (if int attempt < maxAttempts cfg then
        (case fn s of
           (Inr v, s') \<Rightarrow> (Inr v, s', tr\<lparr>invocations := Suc (invocations tr)\<rparr>)
         | (Inl err, s') \<Rightarrow>
             (let tr' = tr\<lparr>invocations := Suc (invocations tr)\<rparr>;
                  delay = backoffMs cfg * 2 ^ (Suc attempt - 1) in
              if int (Suc attempt) \<ge> maxAttempts cfg then (Inl err, s', tr')
              else if (case isRetryableError of Some p \<Rightarrow> \<not> p err | None \<Rightarrow> False)
                then (Inl err, s', tr')
              else if \<not> shouldRetry cfg err \<and> isRetryableError = None
                then (Inl err, s', tr')
              else execute_loop cfg sleep fn isRetryableError (Suc attempt) err
                     (sleep delay s', tr'\<lparr>delays := delays tr' @ [delay]\<rparr>)))
      else (Inl lastError, s, tr))"
  by pat_completeness auto
termination
  by (relation "measure (\<lambda>(cfg, sleep, fn, p, attempt, lastError, st).
                  nat (maxAttempts cfg - int attempt))")
     auto

declare execute_loop.simps [simp del]

definition execute ::
  "RetryConfig \<Rightarrow> (int \<Rightarrow> 's \<Rightarrow> 's) \<Rightarrow> ('s \<Rightarrow> (thrown + 'a) \<times> 's) \<Rightarrow>
   (thrown \<Rightarrow> bool) option \<Rightarrow> 's \<Rightarrow> (thrown + 'a) \<times> 's \<times> RetryTrace" where
  "execute cfg sleep fn isRetryableError s =
     execute_loop cfg sleep fn isRetryableError 0 JsUndefined (s, noTrace)"

text \<open>\<^verbatim>\<open>error?.message?.includes(...)\<close> for the four markers.\<close>

definition isNetworkError :: "thrown \<Rightarrow> bool" where
  "isNetworkError e =
     (case messageProp e of
        None \<Rightarrow> False
      | Some m \<Rightarrow> str_includes m ''timeout'' \<or> str_includes m ''network''
                 \<or> str_includes m ''ECONNREFUSED'' \<or> str_includes m ''ENOTFOUND'')"

definition isServerError :: "int \<Rightarrow> bool" where
  "isServerError st \<longleftrightarrow> st \<ge> 500 \<and> st < 600"

definition isAuthError :: "int \<Rightarrow> bool" where
  "isAuthError st \<longleftrightarrow> st = 401 \<or> st = 403"

text \<open>An operation that always throws \<^verbatim>\<open>new Error(msg)\<close> and counts its calls in the state.\<close>

definition failWith :: "string \<Rightarrow> nat \<Rightarrow> (thrown + unit) \<times> nat" where
  "failWith msg n = (Inl (JsError ''Error'' msg), Suc n)"

text \<open>A sleep that leaves the state alone, and a predicate that rejects every failure.\<close>

definition noSleep :: "int \<Rightarrow> 's \<Rightarrow> 's" where
  "noSleep ms s = s"

definition rejectAll :: "thrown \<Rightarrow> bool" where
  "rejectAll e = False"

section \<open>Transport (src/transport/http-client.ts)\<close>

text \<open>
  What the program takes from its runtime. \<open>fetch\<close> is the network seen through
  \<^verbatim>\<open>HTTPClient.request\<close>: in a world \<open>'w\<close> a request yields the normalised response, or
  the name and message of the error that \<^verbatim>\<open>fetch\<close> rejects with, and the next world.
  \<open>dateNow\<close> is \<^verbatim>\<open>Date.now()\<close>, \<open>sleepFor\<close> the passing of time during a back-off,
  \<open>regexCapture\<close> the first capture group of \<^verbatim>\<open>html.match(pattern)\<close> for the three
  token patterns, \<open>localDate\<close> the triple \<^verbatim>\<open>(getFullYear(), getMonth(), getDate())\<close> of
  an instant in the local time zone, \<open>numberGt0 s\<close> the test \<^verbatim>\<open>Number(s) > 0\<close> on a
  string, and the two \<open>stringify\<close> functions are
  \<^verbatim>\<open>JSON.stringify(body)\<close> and \<^verbatim>\<open>JSON.stringify(formData, null, 2)\<close>.
\<close>

text \<open>
  The three patterns of \<^verbatim>\<open>extractCSRFToken\<close>, all case-insensitive:
  \<^verbatim>\<open><input[^>]*name=["']csrfmiddlewaretoken["'][^>]*value=["']([^"']+)["']\<close>,
  \<^verbatim>\<open><input[^>]*name=["']csrf[_-]?token["'][^>]*value=["']([^"']+)["']\<close> and
  \<^verbatim>\<open><meta[^>]*name=["']csrf[_-]?token["'][^>]*content=["']([^"']+)["']\<close>.
\<close>

datatype TokenPattern = CsrfMiddlewareInput | GenericCsrfInput | CsrfMeta

record 'w Runtime =
  fetch :: "'w \<Rightarrow> HTTPRequest \<Rightarrow> ((string \<times> string) + HTTPResponse) \<times> 'w"
  dateNow :: "'w \<Rightarrow> int"
  sleepFor :: "int \<Rightarrow> 'w \<Rightarrow> 'w"
  regexCapture :: "TokenPattern \<Rightarrow> string \<Rightarrow> string option"
  localDate :: "int \<Rightarrow> int \<times> int \<times> int"
  numberGt0 :: "string \<Rightarrow> bool"
  stringifyBody :: "json \<Rightarrow> string"
  stringifyForm :: "WellSkyVisitNoteRequest \<Rightarrow> string"

text \<open>
  An adapter instance: its session manager, the world it talks to, and a log of every
  request handed to the HTTP client, kept to state what was sent.
\<close>

record 'w Adapter =
  sessionManager :: SessionManager
  world :: 'w
  requests :: "HTTPRequest list"

text \<open>
  \<^verbatim>\<open>HTTPClient.request\<close> with the default timeout: an abort becomes
  \<^verbatim>\<open>new Error(`Request timeout after ${timeout}ms`)\<close>, any other error is rethrown.
\<close>

definition httpRequest ::
  "'w Runtime \<Rightarrow> HTTPRequest \<Rightarrow> 'w Adapter \<Rightarrow> (thrown + HTTPResponse) \<times> 'w Adapter" where
  "httpRequest rt rq a =
     (case fetch rt (world a) rq of
        (Inl (name, msg), w') \<Rightarrow>
          (Inl (if name = ''AbortError''
                then JsError ''Error'' (''Request timeout after '' @ showInt 30000 @ ''ms'')
                else JsError name msg),
           a\<lparr>world := w', requests := requests a @ [rq]\<rparr>)
      | (Inr resp, w') \<Rightarrow> (Inr resp, a\<lparr>world := w', requests := requests a @ [rq]\<rparr>))"

definition getRequest :: "string \<Rightarrow> (string \<times> string) list \<Rightarrow> string list \<Rightarrow> HTTPRequest" where
  "getRequest u hs cs =
     \<lparr>url = u, req_method = ''GET'', req_headers = hs, req_body = None, req_cookies = cs,
      followRedirects = True\<rparr>"

definition postRequest ::
  "string \<Rightarrow> (string \<times> string) list \<Rightarrow> (string \<times> string) list \<Rightarrow> string list \<Rightarrow> bool \<Rightarrow> HTTPRequest" where
  "postRequest u hs form cs follow =
     \<lparr>url = u, req_method = ''POST'', req_headers = hs, req_body = Some form, req_cookies = cs,
      followRedirects = follow\<rparr>"

section \<open>Base adapter (src/adapters/base-adapter.ts)\<close>

definition baseRetryConfig :: RetryConfig where
  "baseRetryConfig =
     \<lparr>maxAttempts = 3, backoffMs = 1000,
      retryableErrors = [''timeout'', ''network'', ''ECONNREFUSED'']\<rparr>"

text \<open>The predicate that \<^verbatim>\<open>handleRetry\<close> passes to \<^verbatim>\<open>execute\<close>.\<close>

definition defaultRetryable :: "thrown \<Rightarrow> bool" where
  "defaultRetryable e =
     (if isNetworkError e then True
      else (case statusProp e of
              Some st \<Rightarrow> st \<noteq> 0 \<and> isServerError st
            | None \<Rightarrow> False))"

definition adapterSleep :: "'w Runtime \<Rightarrow> int \<Rightarrow> 'w Adapter \<Rightarrow> 'w Adapter" where
  "adapterSleep rt ms a = a\<lparr>world := sleepFor rt ms (world a)\<rparr>"

definition handleRetry ::
  "'w Runtime \<Rightarrow> ('w Adapter \<Rightarrow> (thrown + 'a) \<times> 'w Adapter) \<Rightarrow> 'w Adapter \<Rightarrow>
   (thrown + 'a) \<times> 'w Adapter \<times> RetryTrace" where
  "handleRetry rt fn a = execute baseRetryConfig (adapterSleep rt) fn (Some defaultRetryable) a"

definition isAuthenticated :: "'w Runtime \<Rightarrow> 'w Adapter \<Rightarrow> bool" where
  "isAuthenticated rt a \<longleftrightarrow>
     getSession (sessionManager a) \<noteq> None
     \<and> \<not> isExpired (dateNow rt (world a)) (sessionManager a)"

section \<open>WellSky adapter (src/adapters/wellsky-adapter.ts)\<close>

definition wellskyBaseUrl :: string where
  "wellskyBaseUrl = ''https://avasandbox.clearcareonline.com''"

record Credentials =
  username :: string
  password :: string
  cred_baseUrl :: "string option"

text \<open>
  \<^verbatim>\<open>extractCSRFToken\<close>: the three patterns in order; a match counts when its capture
  group is non-empty.
\<close>

definition tryPattern :: "'w Runtime \<Rightarrow> TokenPattern \<Rightarrow> string \<Rightarrow> string option" where
  "tryPattern rt pat html =
     (case regexCapture rt pat html of
        Some tok \<Rightarrow> if tok \<noteq> [] then Some tok else None
      | None \<Rightarrow> None)"

definition extractCSRFToken :: "'w Runtime \<Rightarrow> json \<Rightarrow> string option" where
  "extractCSRFToken rt html =
     (case html of
        JStr h \<Rightarrow>
          if h = [] then None
          else (case tryPattern rt CsrfMiddlewareInput h of
                  Some tok \<Rightarrow> Some tok
                | None \<Rightarrow>
                    (case tryPattern rt GenericCsrfInput h of
                       Some tok \<Rightarrow> Some tok
                     | None \<Rightarrow> tryPattern rt CsrfMeta h))
      | _ \<Rightarrow> None)"

definition authError :: "string \<Rightarrow> cause \<Rightarrow> thrown" where
  "authError msg orig = EMRAdapterError msg Authentication WellSky orig"

definition mergeResponseCookies :: "HTTPResponse \<Rightarrow> 'w Adapter \<Rightarrow> 'w Adapter" where
  "mergeResponseCookies resp a =
     a\<lparr>sessionManager := updateCookies (resp_cookies resp) (sessionManager a)\<rparr>"

subsection \<open>authenticate\<close>

definition effectiveBaseUrl :: "Credentials \<Rightarrow> string" where
  "effectiveBaseUrl cr =
     (case cred_baseUrl cr of
        Some b \<Rightarrow> if b \<noteq> [] then b else wellskyBaseUrl
      | None \<Rightarrow> wellskyBaseUrl)"

definition nextUrl :: string where
  "nextUrl = ''/dashboard/live/''"

definition loginForm :: "Credentials \<Rightarrow> string \<Rightarrow> (string \<times> string) list" where
  "loginForm cr csrfToken =
     [(''csrfmiddlewaretoken'', csrfToken), (''username'', username cr),
      (''password'', password cr), (''next'', nextUrl)]"

text \<open>Step 1: GET the login page, merge its cookies, scrape the token.\<close>

definition fetchLoginPage ::
  "'w Runtime \<Rightarrow> Credentials \<Rightarrow> 'w Adapter \<Rightarrow> (thrown + string) \<times> 'w Adapter" where
  "fetchLoginPage rt cr a =
     (case httpRequest rt
             (getRequest (effectiveBaseUrl cr @ ''/login'' @ ''/?next='' @ nextUrl) [] []) a of
        (Inl e, a1) \<Rightarrow> (Inl e, a1)
      | (Inr loginPageResponse, a1) \<Rightarrow>
          (let a2 = mergeResponseCookies loginPageResponse a1 in
           case extractCSRFToken rt (body loginPageResponse) of
             None \<Rightarrow> (Inl (authError ''Failed to extract CSRF token from login page'' NoCause), a2)
           | Some csrfToken \<Rightarrow> (Inr csrfToken, a2)))"

text \<open>\<^verbatim>\<open>result.errors.length > 0\<close> for a truthy \<^verbatim>\<open>errors\<close>.\<close>

definition lengthPositive :: "'w Runtime \<Rightarrow> json \<Rightarrow> bool" where
  "lengthPositive rt v =
     (case v of
        JArr xs \<Rightarrow> xs \<noteq> []
      | JStr s \<Rightarrow> s \<noteq> []
      | JObj kvs \<Rightarrow>
          (case map_of kvs ''length'' of
             None \<Rightarrow> False
           | Some JNull \<Rightarrow> False
           | Some (JBool b) \<Rightarrow> b
           | Some (JNum n) \<Rightarrow> n > 0
           | Some l \<Rightarrow> numberGt0 rt (jsString l))
      | _ \<Rightarrow> False)"

text \<open>
  The check of the multilogin response; \<open>Some e\<close> is what it throws. A body that is
  \<^verbatim>\<open>null\<close> has type \<^verbatim>\<open>'object'\<close>, and reading \<^verbatim>\<open>success\<close> from it is a TypeError.
\<close>

definition multiloginVerdict :: "'w Runtime \<Rightarrow> HTTPResponse \<Rightarrow> thrown option" where
  "multiloginVerdict rt resp =
     (if status resp = 200 then
        (case body resp of
           JNull \<Rightarrow>
             Some (JsError ''TypeError'' ''Cannot read properties of null (reading 'success')'')
         | JArr xs \<Rightarrow> Some (authError ''WellSky multilogin failed'' (ResponseCause resp))
         | JObj kvs \<Rightarrow>
             if \<not> truthyOpt (map_of kvs ''success'')
                \<or> (truthyOpt (map_of kvs ''errors'')
                    \<and> (case map_of kvs ''errors'' of
                          Some errs \<Rightarrow> lengthPositive rt errs
                        | None \<Rightarrow> False))
             then Some (authError ''WellSky multilogin failed'' (ResponseCause resp))
             else None
         | _ \<Rightarrow> None)
      else None)"

text \<open>Step 2: POST the credentials and the token to \<^verbatim>\<open>/multilogin/\<close>.\<close>

definition multilogin ::
  "'w Runtime \<Rightarrow> Credentials \<Rightarrow> string \<Rightarrow> 'w Adapter \<Rightarrow> (thrown + unit) \<times> 'w Adapter" where
  "multilogin rt cr csrfToken a =
     (case httpRequest rt
             (postRequest (effectiveBaseUrl cr @ ''/multilogin/'')
                [(''Content-Type'', ''application/x-www-form-urlencoded; charset=UTF-8''),
                 (''X-Requested-With'', ''XMLHttpRequest'')]
                (loginForm cr csrfToken) (getCookies (sessionManager a)) True) a of
        (Inl e, a1) \<Rightarrow> (Inl e, a1)
      | (Inr multiloginResponse, a1) \<Rightarrow>
          (let a2 = mergeResponseCookies multiloginResponse a1 in
           case multiloginVerdict rt multiloginResponse of
             Some e \<Rightarrow> (Inl e, a2)
           | None \<Rightarrow> (Inr (), a2)))"

text \<open>Step 3: POST to \<^verbatim>\<open>/login/?ts=...\<close> without following redirects.\<close>

definition primaryLogin ::
  "'w Runtime \<Rightarrow> Credentials \<Rightarrow> string \<Rightarrow> 'w Adapter \<Rightarrow> (thrown + HTTPResponse) \<times> 'w Adapter" where
  "primaryLogin rt cr csrfToken a =
     (case httpRequest rt
             (postRequest
                (effectiveBaseUrl cr @ ''/login'' @ ''/?ts='' @ showSeconds (dateNow rt (world a)))
                [(''Content-Type'', ''application/x-www-form-urlencoded'')]
                (loginForm cr csrfToken) (getCookies (sessionManager a)) False) a of
        (Inl e, a1) \<Rightarrow> (Inl e, a1)
      | (Inr loginResponse, a1) \<Rightarrow> (Inr loginResponse, mergeResponseCookies loginResponse a1))"

definition locationOf :: "HTTPResponse \<Rightarrow> string" where
  "locationOf resp = (case map_of (headers resp) ''location'' of Some l \<Rightarrow> l | None \<Rightarrow> [])"

definition postLoginLocation :: "HTTPResponse \<Rightarrow> bool" where
  "postLoginLocation resp \<longleftrightarrow>
     str_includes (locationOf resp) ''/dashboard'' \<or> str_includes (locationOf resp) ''/live''"

definition dashboardUrl :: "Credentials \<Rightarrow> HTTPResponse \<Rightarrow> string" where
  "dashboardUrl cr resp =
     (if startsWith (locationOf resp) ''http'' then locationOf resp
      else effectiveBaseUrl cr @ locationOf resp)"

text \<open>Step 4: a 302 to the dashboard is followed and the session is set; anything else fails.\<close>

definition completeLogin ::
  "'w Runtime \<Rightarrow> Credentials \<Rightarrow> string \<Rightarrow> HTTPResponse \<Rightarrow> 'w Adapter \<Rightarrow>
   (thrown + Session) \<times> 'w Adapter" where
  "completeLogin rt cr csrfToken loginResponse a =
     (if status loginResponse = 302 \<and> postLoginLocation loginResponse then
        (case httpRequest rt
                (getRequest (dashboardUrl cr loginResponse) [] (getCookies (sessionManager a))) a of
           (Inl e, a1) \<Rightarrow> (Inl e, a1)
         | (Inr dashboardResponse, a1) \<Rightarrow>
             (let a2 = mergeResponseCookies dashboardResponse a1;
                  sess = \<lparr>cookies = getCookies (sessionManager a2),
                          tokens = Some [(''csrf'', csrfToken)], expiresAt = None\<rparr>
              in (Inr sess, a2\<lparr>sessionManager := setSession sess (sessionManager a2)\<rparr>)))
      else (Inl (authError ''WellSky authentication failed'' (ResponseCause loginResponse)), a))"

definition authenticateSteps ::
  "'w Runtime \<Rightarrow> Credentials \<Rightarrow> 'w Adapter \<Rightarrow> (thrown + Session) \<times> 'w Adapter" where
  "authenticateSteps rt cr a =
     (case fetchLoginPage rt cr a of
        (Inl e, a1) \<Rightarrow> (Inl e, a1)
      | (Inr csrfToken, a1) \<Rightarrow>
          (case multilogin rt cr csrfToken a1 of
             (Inl e, a2) \<Rightarrow> (Inl e, a2)
           | (Inr u, a2) \<Rightarrow>
               (case primaryLogin rt cr csrfToken a2 of
                  (Inl e, a3) \<Rightarrow> (Inl e, a3)
                | (Inr loginResponse, a3) \<Rightarrow> completeLogin rt cr csrfToken loginResponse a3)))"

text \<open>The \<^verbatim>\<open>catch\<close> of \<^verbatim>\<open>authenticate\<close>: an adapter error passes, anything else is wrapped.\<close>

definition wrapAuthError :: "thrown \<Rightarrow> thrown" where
  "wrapAuthError e =
     (if isEMRAdapterError e then e
      else authError (''WellSky authentication error: '' @ messageText e) (Caught e))"

definition authenticate ::
  "'w Runtime \<Rightarrow> Credentials \<Rightarrow> 'w Adapter \<Rightarrow> (thrown + Session) \<times> 'w Adapter" where
  "authenticate rt cr a =
     (case authenticateSteps rt cr a of
        (Inl e, a') \<Rightarrow> (Inl (wrapAuthError e), a')
      | (Inr sess, a') \<Rightarrow> (Inr sess, a'))"

subsection \<open>transform\<close>

text \<open>\<^verbatim>\<open>formatDate\<close>: MM/DD/YYYY from the local calendar fields; NaN for the invalid date.\<close>

definition formatDate :: "'w Runtime \<Rightarrow> Date \<Rightarrow> string" where
  "formatDate rt d =
     (case d of
        InvalidDate \<Rightarrow> ''NaN/NaN/NaN''
      | Instant t \<Rightarrow>
          (case localDate rt t of
             (year, month, day) \<Rightarrow>
               padStart2 (showInt (month + 1)) @ ''/'' @ padStart2 (showInt day) @ ''/''
               @ showInt year))"

text \<open>\<^verbatim>\<open>note.metadata?.key\<close>.\<close>

definition metadataProp :: "VisitNote \<Rightarrow> string \<Rightarrow> json option" where
  "metadataProp n key = (case metadata n of None \<Rightarrow> None | Some md \<Rightarrow> map_of md key)"

text \<open>\<^verbatim>\<open>String(v)\<close> of a string field that may be undefined.\<close>

definition stringOpt :: "string option \<Rightarrow> string" where
  "stringOpt v = (case v of Some s \<Rightarrow> s | None \<Rightarrow> ''undefined'')"

text \<open>
  \<^verbatim>\<open>transform\<close> reads the record only; it throws a TypeError when \<^verbatim>\<open>visitDate\<close> is
  undefined, since \<^verbatim>\<open>formatDate\<close> calls a method of it.
\<close>

definition transform :: "'w Runtime \<Rightarrow> VisitNote \<Rightarrow> thrown + WellSkyVisitNoteRequest" where
  "transform rt n =
     (case visitDate n of
        None \<Rightarrow>
          Inl (JsError ''TypeError'' ''Cannot read properties of undefined (reading 'getMonth')'')
      | Some d \<Rightarrow>
          Inr \<lparr>carelog = [],
               shift = (case metadataProp n ''shift'' of
                          Some v \<Rightarrow> if truthy v then jsString v else stringOpt (visitId n)
                        | None \<Rightarrow> stringOpt (visitId n)),
               unavailability = [],
               date = formatDate rt d,
               tags = (case metadataProp n ''tags'' of
                         Some v \<Rightarrow> if truthy v then v else JStr ''38060''
                       | None \<Rightarrow> JStr ''38060''),
               req_note = noteText n,
               show_with_billing = ''on'',
               show_with_payroll = ''on'',
               csrfmiddlewaretoken = None\<rparr>)"

subsection \<open>postVisitNote\<close>

text \<open>\<^verbatim>\<open>Object.entries(formData)\<close> with each value as \<^verbatim>\<open>append\<close> stringifies it.\<close>

definition formEntries :: "WellSkyVisitNoteRequest \<Rightarrow> (string \<times> string) list" where
  "formEntries f =
     [(''carelog'', carelog f), (''shift'', shift f), (''unavailability'', unavailability f),
      (''date'', date f), (''tags'', jsString (tags f)), (''note'', stringOpt (req_note f)),
      (''show_with_billing'', show_with_billing f), (''show_with_payroll'', show_with_payroll f)]
     @ (case csrfmiddlewaretoken f of Some tok \<Rightarrow> [(''csrfmiddlewaretoken'', tok)] | None \<Rightarrow> [])"

definition sessionLossStatus :: "int \<Rightarrow> bool" where
  "sessionLossStatus st \<longleftrightarrow> st = 403 \<or> st = 302"

definition schedulingRequest :: "'w Adapter \<Rightarrow> HTTPRequest" where
  "schedulingRequest a =
     getRequest (wellskyBaseUrl @ ''/scheduling/'')
       [(''Referer'', wellskyBaseUrl @ ''/dashboard/live/'')] (getCookies (sessionManager a))"

definition dashboardProbe :: "'w Adapter \<Rightarrow> HTTPRequest" where
  "dashboardProbe a =
     getRequest (wellskyBaseUrl @ ''/dashboard/live/'') [] (getCookies (sessionManager a))"

definition submitRequest :: "WellSkyVisitNoteRequest \<Rightarrow> 'w Adapter \<Rightarrow> HTTPRequest" where
  "submitRequest formData a =
     postRequest (wellskyBaseUrl @ ''/scheduling/note/add/'')
       [(''Content-Type'', ''application/x-www-form-urlencoded''),
        (''Referer'', wellskyBaseUrl @ ''/dashboard/live/''),
        (''Origin'', wellskyBaseUrl)]
       (formEntries formData) (getCookies (sessionManager a)) True"

text \<open>
  The session check after the scheduling page: when that page answered 403 or 302 the
  dashboard is probed, and a 403 or 302 there too is the session-lost error.
\<close>

definition checkSession ::
  "'w Runtime \<Rightarrow> HTTPResponse \<Rightarrow> 'w Adapter \<Rightarrow> (thrown + unit) \<times> 'w Adapter" where
  "checkSession rt schedulingResponse a =
     (if sessionLossStatus (status schedulingResponse) then
        (case httpRequest rt (dashboardProbe a) a of
           (Inl e, a1) \<Rightarrow> (Inl e, a1)
         | (Inr dashboardResponse, a1) \<Rightarrow>
             if sessionLossStatus (status dashboardResponse)
             then (Inl (authError ''Session expired or invalid. Please login again.''
                          (SessionLost (status schedulingResponse) (status dashboardResponse))),
                   a1)
             else (Inr (), a1))
      else (Inr (), a))"

text \<open>
  The token to submit: a fresh one from a 200 scheduling page replaces the stored one (and
  is stored); otherwise the stored one stays. The result is the token and the new state.
\<close>

definition refreshToken ::
  "'w Runtime \<Rightarrow> HTTPResponse \<Rightarrow> string option \<Rightarrow> 'w Adapter \<Rightarrow> string option \<times> 'w Adapter" where
  "refreshToken rt schedulingResponse csrfToken a =
     (if status schedulingResponse = 200 then
        (let htmlBody = (case body schedulingResponse of
                           JStr h \<Rightarrow> h
                         | b \<Rightarrow> if truthy b then jsString b else [])
         in case extractCSRFToken rt (JStr htmlBody) of
              Some newToken \<Rightarrow>
                (Some newToken,
                 a\<lparr>sessionManager := updateTokens [(''csrf'', newToken)] (sessionManager a)\<rparr>)
            | None \<Rightarrow> (csrfToken, a))
      else (csrfToken, a))"

definition forbiddenMessage :: "string \<Rightarrow> string \<Rightarrow> string" where
  "forbiddenMessage bodyPreview requestData =
     ''WellSky post visit note failed with 403 Forbidden. This may indicate:'' @ [CHR 0x0A]
     @ ''1. CSRF token is invalid or expired'' @ [CHR 0x0A]
     @ ''2. Session has expired'' @ [CHR 0x0A]
     @ ''3. Missing required permissions'' @ [CHR 0x0A]
     @ ''Response body: '' @ bodyPreview @ [CHR 0x0A]
     @ ''Request data: '' @ requestData"

text \<open>What the submission response becomes: the result for 200..399, an error otherwise.\<close>

definition submissionOutcome ::
  "'w Runtime \<Rightarrow> VisitNote \<Rightarrow> WellSkyVisitNoteRequest \<Rightarrow> HTTPResponse \<Rightarrow> int \<Rightarrow>
   thrown + PostResult" where
  "submissionOutcome rt n formData resp now =
     (if status resp \<ge> 200 \<and> status resp < 400 then
        Inr \<lparr>success = True, result_visitId = visitId n, timestamp = now,
             request = Some formData, response = Some (body resp), error = None\<rparr>
      else if status resp = 403 then
        (let bodyPreview = take 500 (case body resp of
                                       JStr b \<Rightarrow> b
                                     | b \<Rightarrow> stringifyBody rt b)
         in Inl (authError (forbiddenMessage bodyPreview (stringifyForm rt formData))
                   (ForbiddenDetail (status resp) (statusText resp) (headers resp) bodyPreview
                      formData ''present'')))
      else
        Inl (EMRAdapterError
               (''WellSky post visit note failed with status '' @ showInt (status resp) @ '' ''
                @ statusText resp)
               EMRSpecific WellSky (ResponseCause resp)))"

text \<open>One run of the operation that \<^verbatim>\<open>postVisitNote\<close> hands to \<^verbatim>\<open>handleRetry\<close>.\<close>

definition postVisitNoteAttempt ::
  "'w Runtime \<Rightarrow> VisitNote \<Rightarrow> 'w Adapter \<Rightarrow> (thrown + PostResult) \<times> 'w Adapter" where
  "postVisitNoteAttempt rt n a =
     (let stored = map_of (getTokens (sessionManager a)) ''csrf'' in
      case httpRequest rt (schedulingRequest a) a of
        (Inl e, a1) \<Rightarrow> (Inl e, a1)
      | (Inr schedulingResponse, a1) \<Rightarrow>
          (case checkSession rt schedulingResponse (mergeResponseCookies schedulingResponse a1) of
             (Inl e, a2) \<Rightarrow> (Inl e, a2)
           | (Inr u, a2) \<Rightarrow>
               (case refreshToken rt schedulingResponse stored a2 of
                  (csrfToken, a3) \<Rightarrow>
                    if csrfToken = None \<or> csrfToken = Some [] then
                      (Inl (authError
                              ''Failed to obtain CSRF token. Please try logging in again.'' NoCause),
                       a3)
                    else
                      (case transform rt n of
                         Inl e \<Rightarrow> (Inl e, a3)
                       | Inr req \<Rightarrow>
                           (let formData = req\<lparr>csrfmiddlewaretoken := csrfToken\<rparr> in
                            case httpRequest rt (submitRequest formData a3) a3 of
                              (Inl e, a4) \<Rightarrow> (Inl e, a4)
                            | (Inr resp, a4) \<Rightarrow>
                                (submissionOutcome rt n formData resp (dateNow rt (world a4)),
                                 mergeResponseCookies resp a4))))))"

definition postVisitNote ::
  "'w Runtime \<Rightarrow> VisitNote \<Rightarrow> 'w Adapter \<Rightarrow> (thrown + PostResult) \<times> 'w Adapter \<times> RetryTrace" where
  "postVisitNote rt n a =
     (if \<not> isAuthenticated rt a then
        (Inl (authError ''Not authenticated. Please call authenticate() first.'' NoCause), a, noTrace)
      else handleRetry rt (postVisitNoteAttempt rt n) a)"

section \<open>Registry and orchestration (src/adapters/adapter-factory.ts, src/services/visit-note-service.ts)\<close>

definition emrTypeName :: "EMRType \<Rightarrow> string" where
  "emrTypeName t = (case t of WellSky \<Rightarrow> ''wellsky'' | AxisCare \<Rightarrow> ''axiscare'' | AlayaCare \<Rightarrow> ''alayacare'')"

text \<open>\<^verbatim>\<open>AdapterFactory.create\<close>: a new WellSky adapter in the given world, or the error.\<close>

definition create :: "EMRType \<Rightarrow> 'w \<Rightarrow> thrown + 'w Adapter" where
  "create emrType w =
     (case emrType of
        WellSky \<Rightarrow> Inr \<lparr>sessionManager = freshManager, world = w, requests = []\<rparr>
      | _ \<Rightarrow> Inl (JsError ''Error'' (''Unsupported EMR type: '' @ emrTypeName emrType)))"

definition falsy :: "string option \<Rightarrow> bool" where
  "falsy v \<longleftrightarrow> v = None \<or> v = Some []"

definition validateVisitNote :: "VisitNote \<Rightarrow> thrown + unit" where
  "validateVisitNote n =
     (if falsy (visitId n) then Inl (JsError ''Error'' ''visitId is required'')
      else if falsy (patientId n) then Inl (JsError ''Error'' ''patientId is required'')
      else if falsy (caregiverId n) then Inl (JsError ''Error'' ''caregiverId is required'')
      else if falsy (noteText n) then Inl (JsError ''Error'' ''note content is required'')
      else if visitDate n = None then Inl (JsError ''Error'' ''visitDate is required'')
      else Inr ())"

text \<open>The \<^verbatim>\<open>catch\<close> of \<^verbatim>\<open>VisitNoteService.postVisitNote\<close>.\<close>

definition wrapServiceError :: "EMRType \<Rightarrow> thrown \<Rightarrow> thrown" where
  "wrapServiceError emrType e =
     (if isEMRAdapterError e then e
      else EMRAdapterError (''Failed to post visit note: '' @ messageText e)
             (case typeProp e of Some t \<Rightarrow> t | None \<Rightarrow> EMRSpecific) emrType (Caught e))"

text \<open>
  \<^verbatim>\<open>VisitNoteService.postVisitNote\<close> for a service of type \<open>emrType\<close> holding the adapter
  \<open>a\<close>. Validation runs before the \<^verbatim>\<open>try\<close>; only what the adapter throws reaches the
  \<^verbatim>\<open>catch\<close>. Logging the result has no effect on the state.
\<close>

definition servicePostVisitNote ::
  "'w Runtime \<Rightarrow> EMRType \<Rightarrow> VisitNote \<Rightarrow> 'w Adapter \<Rightarrow>
   (thrown + PostResult) \<times> 'w Adapter \<times> RetryTrace" where
  "servicePostVisitNote rt emrType n a =
     (case validateVisitNote n of
        Inl e \<Rightarrow> (Inl e, a, noTrace)
      | Inr u \<Rightarrow>
          (case postVisitNote rt n a of
             (Inl e, a', tr) \<Rightarrow> (Inl (wrapServiceError emrType e), a', tr)
           | (Inr result, a', tr) \<Rightarrow> (Inr result, a', tr)))"

section \<open>A scripted runtime for the examples\<close>

text \<open>
  The world is the list of answers the network will give, in order; when the list is
  used up every request fails as \<^verbatim>\<open>fetch\<close> does without a connection. The regular
  expression engine and the calendar are given on the page and the date the examples use.
\<close>

type_synonym Script = "((string \<times> string) + HTTPResponse) list"

definition scriptedFetch :: "Script \<Rightarrow> HTTPRequest \<Rightarrow> ((string \<times> string) + HTTPResponse) \<times> Script" where
  "scriptedFetch w rq =
     (case w of [] \<Rightarrow> (Inl (''TypeError'', ''fetch failed''), []) | r # rs \<Rightarrow> (r, rs))"

definition tokenPage :: string where
  "tokenPage = ''<input name='csrfmiddlewaretoken' value='tok123'>''"

definition exampleCapture :: "TokenPattern \<Rightarrow> string \<Rightarrow> string option" where
  "exampleCapture pat html =
     (if pat = CsrfMiddlewareInput \<and> html = tokenPage then Some ''tok123'' else None)"

definition exampleRuntime :: "Script Runtime" where
  "exampleRuntime =
     \<lparr>fetch = scriptedFetch,
      dateNow = (\<lambda>w. 1766400000000),
      sleepFor = (\<lambda>ms w. w),
      regexCapture = exampleCapture,
      localDate = (\<lambda>t. if t = 1766361600000 then (2025, 11, 22) else (1970, 0, 1)),
      numberGt0 = (\<lambda>s. False),
      stringifyBody = (\<lambda>b. ''{}''),
      stringifyForm = (\<lambda>f. ''{}'')\<rparr>"

definition exampleNote :: VisitNote where
  "exampleNote =
     \<lparr>visitId = Some ''123'', patientId = Some ''p1'', caregiverId = Some ''c1'',
      visitDate = Some (Instant 1766361600000), startTime = Some ''10:00'',
      endTime = Some ''11:00'', noteText = Some ''ok'', tasks = None, metadata = None\<rparr>"

definition exampleCredentials :: Credentials where
  "exampleCredentials = \<lparr>username = ''user'', password = ''secret'', cred_baseUrl = None\<rparr>"

definition newAdapter :: "'w \<Rightarrow> 'w Adapter" where
  "newAdapter w = \<lparr>sessionManager = freshManager, world = w, requests = []\<rparr>"

definition loggedIn :: "'w \<Rightarrow> 'w Adapter" where
  "loggedIn w =
     \<lparr>sessionManager =
        \<lparr>session = Some \<lparr>cookies = [''sessionid=abc''], tokens = Some [(''csrf'', ''tok0'')],
                          expiresAt = None\<rparr>,
         sessionFilePath = None\<rparr>,
      world = w, requests = []\<rparr>"

definition plainResponse :: "int \<Rightarrow> string \<Rightarrow> json \<Rightarrow> HTTPResponse" where
  "plainResponse st txt b =
     \<lparr>status = st, statusText = txt, headers = [], body = b, resp_cookies = []\<rparr>"

definition loginRedirect :: HTTPResponse where
  "loginRedirect =
     \<lparr>status = 302, statusText = ''Found'', headers = [(''location'', ''/dashboard/live/'')],
      body = JStr [], resp_cookies = [''sessionid=abc'']\<rparr>"

definition loginScript :: Script where
  "loginScript =
     [Inr (plainResponse 200 ''OK'' (JStr tokenPage)),
      Inr (plainResponse 200 ''OK'' (JObj [(''success'', JBool True)])),
      Inr loginRedirect]"

text \<open>Two records that differ at most in \<^verbatim>\<open>metadata.tags\<close>.\<close>

definition metadataKeys :: "VisitNote \<Rightarrow> string list" where
  "metadataKeys n = (case metadata n of None \<Rightarrow> [] | Some md \<Rightarrow> map fst md)"

definition sameExceptTags :: "VisitNote \<Rightarrow> VisitNote \<Rightarrow> bool" where
  "sameExceptTags n1 n2 \<longleftrightarrow>
     visitId n1 = visitId n2 \<and> patientId n1 = patientId n2 \<and> caregiverId n1 = caregiverId n2
     \<and> visitDate n1 = visitDate n2 \<and> startTime n1 = startTime n2 \<and> endTime n1 = endTime n2
     \<and> noteText n1 = noteText n2 \<and> tasks n1 = tasks n2
     \<and> (\<forall>key \<in> set (metadataKeys n1 @ metadataKeys n2).
           key \<noteq> ''tags'' \<longrightarrow> metadataProp n1 key = metadataProp n2 key)"

text \<open>The kinds of failure that occur inside \<^verbatim>\<open>authenticate\<close>.\<close>

fun authFailure :: "thrown \<Rightarrow> bool" where
  "authFailure (EMRAdapterError msg ty emr orig) = (ty = Authentication \<and> emr = WellSky)"
| "authFailure e = False"

fun rawOrAuth :: "thrown \<Rightarrow> bool" where
  "rawOrAuth (JsError name msg) = True"
| "rawOrAuth e = authFailure e"

text \<open>The date functions on the two instants the examples use.\<close>

definition exampleDates :: JsDates where
  "exampleDates =
     \<lparr>toISOString = (\<lambda>t. if t = 1767225600000 then ''2026-01-01T00:00:00.000Z''
                          else ''1970-01-01T00:00:00.000Z''),
      parseDate = (\<lambda>s. if s = ''2026-01-01T00:00:00.000Z'' then Instant 1767225600000
                        else if s = ''1970-01-01T00:00:00.000Z'' then Instant 0
                        else InvalidDate)\<rparr>"

definition savedManager :: SessionManager where
  "savedManager =
     \<lparr>session = Some \<lparr>cookies = [''sessionid=abc''], tokens = Some [(''csrf'', ''tok123'')],
                       expiresAt = Some (Instant 1767225600000)\<rparr>,
      sessionFilePath = Some ''.session-wellsky.json''\<rparr>"

definition emptyDisk :: FileSystem where
  "emptyDisk = \<lparr>files = [], readOnly = []\<rparr>"

text \<open>
  A vendor that answers every GET with 307 Temporary Redirect and accepts the submission
  POST with 200; it keeps no state.
\<close>

definition redirectingFetch :: "unit \<Rightarrow> HTTPRequest \<Rightarrow> ((string \<times> string) + HTTPResponse) \<times> unit" where
  "redirectingFetch w rq =
     (if req_method rq = ''POST'' then Inr (plainResponse 200 ''OK'' (JStr ''saved''))
      else Inr (plainResponse 307 ''Temporary Redirect'' (JStr [])),
      w)"

definition redirectingRuntime :: "unit Runtime" where
  "redirectingRuntime =
     \<lparr>fetch = redirectingFetch,
      dateNow = (\<lambda>w. 1766400000000),
      sleepFor = (\<lambda>ms w. w),
      regexCapture = exampleCapture,
      localDate = (\<lambda>t. if t = 1766361600000 then (2025, 11, 22) else (1970, 0, 1)),
      numberGt0 = (\<lambda>s. False),
      stringifyBody = (\<lambda>b. ''{}''),
      stringifyForm = (\<lambda>f. ''{}'')\<rparr>"

section \<open>Cookie merging\<close>

lemma set_update_subset: "set (AList.update k v al) \<subseteq> insert (k, v) (set al)"
  by (induction al) auto

lemma wf_jar_Nil: "wf_jar []"
  by (simp add: wf_jar_def)

lemma wf_jar_setCookie: "wf_jar m \<Longrightarrow> wf_jar (setCookie c m)"
proof -
  assume wf: "wf_jar m"
  show ?thesis
  proof (cases "cookieName c = []")
    case True
    with wf show ?thesis by (simp add: setCookie_def)
  next
    case False
    have "\<forall>p \<in> set (AList.update (cookieName c) c m). cookieName (snd p) = fst p \<and> fst p \<noteq> []"
      using wf False set_update_subset[of "cookieName c" c m] by (auto simp: wf_jar_def)
    with wf False show ?thesis by (simp add: setCookie_def wf_jar_def distinct_update)
  qed
qed

lemma wf_jar_fold: "wf_jar m \<Longrightarrow> wf_jar (fold setCookie cs m)"
  by (induction cs arbitrary: m) (auto simp: wf_jar_setCookie)

lemma map_of_setCookie:
  "map_of (setCookie c m) n = (if cookieName c = n \<and> n \<noteq> [] then Some c else map_of m n)"
  by (auto simp: setCookie_def update_conv')

lemma find_append_if:
  "find P (xs @ ys) = (case find P xs of Some x \<Rightarrow> Some x | None \<Rightarrow> find P ys)"
  by (induction xs) auto

lemma map_of_fold_setCookie:
  "n \<noteq> [] \<Longrightarrow> map_of (fold setCookie cs m) n = (case lastNamed n cs of Some c \<Rightarrow> Some c | None \<Rightarrow> map_of m n)"
proof (induction cs arbitrary: m)
  case Nil
  then show ?case by (simp add: lastNamed_def)
next
  case (Cons c cs)
  show ?case
    using Cons.prems by (auto simp: Cons.IH map_of_setCookie lastNamed_def find_append_if split: option.splits)
qed

lemma map_of_fold_setCookie_empty: "map_of (fold setCookie cs m) [] = map_of m []"
  by (induction cs arbitrary: m) (auto simp: map_of_setCookie)

lemma cookieFor_jar: "wf_jar m \<Longrightarrow> cookieFor n (map snd m) = map_of m n"
proof (induction m)
  case Nil
  then show ?case by (simp add: cookieFor_def)
next
  case (Cons p m)
  then have wf: "wf_jar m" and fp: "cookieName (snd p) = fst p" and nin: "fst p \<notin> fst ` set m"
    by (auto simp: wf_jar_def)
  show ?case
  proof (cases "fst p = n")
    case True
    with fp show ?thesis by (cases p) (simp add: cookieFor_def)
  next
    case False
    with fp Cons.IH[OF wf] show ?thesis by (cases p) (simp add: cookieFor_def)
  qed
qed

lemma fold_setCookie_rebuild:
  "wf_jar (acc @ m) \<Longrightarrow> fold setCookie (map snd m) acc = acc @ m"
proof (induction m arbitrary: acc)
  case Nil
  then show ?case by simp
next
  case (Cons p m)
  obtain k v where p: "p = (k, v)" by (cases p)
  from Cons.prems p have k: "cookieName v = k" "k \<noteq> []" and nin: "k \<notin> fst ` set acc"
    by (auto simp: wf_jar_def)
  have upd: "AList.update k v acc = acc @ [(k, v)]"
    using nin by (induction acc) auto
  have "wf_jar ((acc @ [(k, v)]) @ m)" using Cons.prems p by simp
  from Cons.IH[OF this] show ?case using p k upd by (simp add: setCookie_def)
qed

lemma alist_eqI:
  "distinct (map fst xs) \<Longrightarrow> map fst xs = map fst ys \<Longrightarrow> map_of xs = map_of ys \<Longrightarrow> xs = ys"
proof (induction xs arbitrary: ys)
  case Nil
  then show ?case by simp
next
  case (Cons x xs)
  then obtain y ys' where ys: "ys = y # ys'" by (cases ys) auto
  with Cons.prems have fx: "fst x = fst y" and keys: "map fst xs = map fst ys'"
    and d: "distinct (map fst xs)" and nin: "fst x \<notin> fst ` set xs" by auto
  from Cons.prems(3) ys fx have "snd x = snd y"
    by (cases x; cases y) (auto dest: fun_cong[where x = "fst x"])
  with fx have xy: "x = y" by (simp add: prod_eq_iff)
  have "map_of xs = map_of ys'"
  proof
    fix k
    show "map_of xs k = map_of ys' k"
    proof (cases "k = fst x")
      case True
      with nin keys show ?thesis
        by (metis image_set map_of_eq_None_iff)
    next
      case False
      with Cons.prems(3) ys xy show ?thesis
        by (cases y) (auto dest: fun_cong[where x = k] split: if_splits)
    qed
  qed
  with Cons.IH[OF d keys] xy ys show ?case by simp
qed

lemma mergeCookies_fold: "mergeCookies cur inc = map snd (fold setCookie (cur @ inc) [])"
  by (simp add: mergeCookies_def)

lemma mergeCookies_twice:
  "mergeCookies (mergeCookies cur a) b = map snd (fold setCookie (cur @ a @ b) [])"
proof -
  have "wf_jar ([] @ fold setCookie (cur @ a) [])" by (simp add: wf_jar_fold wf_jar_Nil)
  from fold_setCookie_rebuild[OF this]
  show ?thesis by (simp add: mergeCookies_def)
qed

lemma getCookies_two_updates:
  "getCookies (updateCookies b (updateCookies a sm)) = map snd (fold setCookie (getCookies sm @ a @ b) [])"
  by (cases "session sm")
     (simp_all add: updateCookies_def getCookies_def mergeCookies_twice, simp add: mergeCookies_def)

lemma jar_names: "wf_jar m \<Longrightarrow> map cookieName (map snd m) = map fst m"
  by (induction m) (auto simp: wf_jar_def)

lemma keys_fold_setCookie:
  "fst ` set (fold setCookie cs m) = fst ` set m \<union> (cookieName ` set cs - {[]})"
  by (induction cs arbitrary: m) (auto simp: setCookie_def dom_update)

lemma lastNamed_None: "lastNamed n cs = None \<longleftrightarrow> n \<notin> cookieName ` set cs"
  by (auto simp: lastNamed_def find_None_iff)

lemma fold_setCookie_idem:
  assumes "wf_jar m"
  shows "fold setCookie cs (fold setCookie cs m) = fold setCookie cs m"
proof -
  let ?M = "fold setCookie cs m"
  have wf: "wf_jar ?M" using assms by (rule wf_jar_fold)
  have keys: "\<And>ds M. cookieName ` set ds - {[]} \<subseteq> fst ` set M \<Longrightarrow> map fst (fold setCookie ds M) = map fst M"
  proof -
    fix ds :: "string list" and M :: "(string \<times> string) list"
    show "cookieName ` set ds - {[]} \<subseteq> fst ` set M \<Longrightarrow> map fst (fold setCookie ds M) = map fst M"
    proof (induction ds arbitrary: M)
      case Nil
      then show ?case by simp
    next
      case (Cons d ds)
      have k1: "map fst (setCookie d M) = map fst M"
        using Cons.prems by (auto simp: setCookie_def update_keys)
      then have "fst ` set (setCookie d M) = fst ` set M" by (metis image_set)
      with Cons.prems have "cookieName ` set ds - {[]} \<subseteq> fst ` set (setCookie d M)" by auto
      from Cons.IH[OF this] k1 show ?case by simp
    qed
  qed
  have k: "map fst (fold setCookie cs ?M) = map fst ?M"
    by (rule keys) (auto simp: keys_fold_setCookie)
  have m: "map_of (fold setCookie cs ?M) = map_of ?M"
  proof
    fix n show "map_of (fold setCookie cs ?M) n = map_of ?M n"
      by (cases "n = []") (simp_all add: map_of_fold_setCookie map_of_fold_setCookie_empty split: option.splits)
  qed
  have "distinct (map fst (fold setCookie cs ?M))" using wf_jar_fold[OF wf] by (simp add: wf_jar_def)
  from alist_eqI[OF this k m] show ?thesis .
qed

lemma getCookies_update_existing:
  "session sm \<noteq> None \<Longrightarrow> getCookies (updateCookies cs sm) = mergeCookies (getCookies sm) cs"
  by (auto simp: updateCookies_def getCookies_def)

lemma session_updateCookies: "session (updateCookies cs sm) \<noteq> None"
  by (simp add: updateCookies_def split: option.splits)

lemma distinct_mergeCookies: "distinct (map cookieName (mergeCookies cur inc))"
proof -
  have wf: "wf_jar (fold setCookie (cur @ inc) [])" by (simp add: wf_jar_fold wf_jar_Nil)
  then show ?thesis unfolding mergeCookies_fold by (simp only: jar_names) (simp add: wf_jar_def)
qed

lemma distinct_after_updates:
  "session sm \<noteq> None \<Longrightarrow> distinct (map cookieName (getCookies sm)) \<Longrightarrow>
   distinct (map cookieName (getCookies (fold updateCookies us sm)))"
proof (induction us arbitrary: sm)
  case Nil
  then show ?case by simp
next
  case (Cons u us)
  have "distinct (map cookieName (getCookies (updateCookies u sm)))"
    using Cons.prems(1) by (simp add: getCookies_update_existing distinct_mergeCookies)
  from Cons.IH[OF session_updateCookies this] show ?case by simp
qed

text \<open>
  C6 (amended). For every starting state and all cookie lists \<open>A\<close> then \<open>B\<close> applied through
  \<^verbatim>\<open>updateCookies\<close>, the resulting list has exactly one entry per distinct non-empty
  cookie name among the earlier cookies, \<open>A\<close> and \<open>B\<close>; for every non-empty name in \<open>B\<close> the
  entry is \<open>B\<close>'s (last) full cookie string; every non-empty name of \<open>A\<close> that is not in \<open>B\<close>
  keeps \<open>A\<close>'s (last) cookie string; applying \<open>B\<close> again leaves the list as it is, and the
  names stay distinct after any number of further updates. Entries whose name is empty are
  not kept by a merge.
\<close>

theorem updateCookies_merge:
  fixes A B :: "string list" and sm :: SessionManager
  defines "R \<equiv> getCookies (updateCookies B (updateCookies A sm))"
  shows "distinct (map cookieName R)
       \<and> cookieName ` set R = cookieName ` (set (getCookies sm) \<union> set A \<union> set B) - {[]}
       \<and> (\<forall>n. n \<noteq> [] \<and> n \<in> cookieName ` set B \<longrightarrow> cookieFor n R = lastNamed n B)
       \<and> (\<forall>n. n \<noteq> [] \<and> n \<in> cookieName ` set A \<and> n \<notin> cookieName ` set B \<longrightarrow> cookieFor n R = lastNamed n A)
       \<and> getCookies (updateCookies B (updateCookies B (updateCookies A sm))) = R
       \<and> (\<forall>us. distinct (map cookieName (getCookies (fold updateCookies us (updateCookies B (updateCookies A sm))))))"
proof -
  let ?M = "fold setCookie (getCookies sm @ A @ B) []"
  have R: "R = map snd ?M" unfolding R_def by (rule getCookies_two_updates)
  have wf: "wf_jar ?M" by (simp add: wf_jar_fold wf_jar_Nil)
  have names: "map cookieName R = map fst ?M" unfolding R by (rule jar_names[OF wf])
  have d: "distinct (map cookieName R)" using wf names by (simp add: wf_jar_def)
  have "set (map cookieName R) = fst ` set ?M" unfolding names by simp
  then have dom: "cookieName ` set R = cookieName ` (set (getCookies sm) \<union> set A \<union> set B) - {[]}"
    by (auto simp: keys_fold_setCookie image_Un)
  have look: "\<And>n. n \<noteq> [] \<Longrightarrow> cookieFor n R =
      (case lastNamed n B of Some c \<Rightarrow> Some c | None \<Rightarrow>
        (case lastNamed n A of Some c \<Rightarrow> Some c | None \<Rightarrow> lastNamed n (getCookies sm)))"
    unfolding R cookieFor_jar[OF wf]
    by (simp add: map_of_fold_setCookie split: option.splits)
  have b: "\<forall>n. n \<noteq> [] \<and> n \<in> cookieName ` set B \<longrightarrow> cookieFor n R = lastNamed n B"
  proof (intro allI impI)
    fix n assume n: "n \<noteq> [] \<and> n \<in> cookieName ` set B"
    then have "lastNamed n B \<noteq> None" by (simp add: lastNamed_None)
    with n look[of n] show "cookieFor n R = lastNamed n B" by (auto split: option.splits)
  qed
  have a: "\<forall>n. n \<noteq> [] \<and> n \<in> cookieName ` set A \<and> n \<notin> cookieName ` set B \<longrightarrow> cookieFor n R = lastNamed n A"
  proof (intro allI impI)
    fix n assume n: "n \<noteq> [] \<and> n \<in> cookieName ` set A \<and> n \<notin> cookieName ` set B"
    then have "lastNamed n A \<noteq> None" "lastNamed n B = None" by (simp_all add: lastNamed_None)
    with n look[of n] show "cookieFor n R = lastNamed n A" by (auto split: option.splits)
  qed
  have ex: "session (updateCookies B (updateCookies A sm)) \<noteq> None" by (rule session_updateCookies)
  have "getCookies (updateCookies B (updateCookies B (updateCookies A sm))) = mergeCookies R B"
    unfolding R_def by (rule getCookies_update_existing[OF ex])
  also have "\<dots> = map snd (fold setCookie B (fold setCookie (map snd ?M) []))"
    by (simp add: mergeCookies_def R)
  also have "fold setCookie (map snd ?M) [] = ?M"
    using fold_setCookie_rebuild[of "[]" ?M] wf by simp
  also have "fold setCookie B ?M = ?M"
  proof -
    have "?M = fold setCookie B (fold setCookie (getCookies sm @ A) [])" by simp
    moreover have "wf_jar (fold setCookie (getCookies sm @ A) [])" by (simp add: wf_jar_fold wf_jar_Nil)
    ultimately show ?thesis using fold_setCookie_idem by metis
  qed
  finally have idem: "getCookies (updateCookies B (updateCookies B (updateCookies A sm))) = R"
    by (simp add: R)
  have rep: "\<forall>us. distinct (map cookieName (getCookies (fold updateCookies us (updateCookies B (updateCookies A sm)))))"
    using distinct_after_updates[OF ex] d by (simp add: R_def)
  from d dom b a idem rep show ?thesis by blast
qed

theorem updateCookies_merge_witness:
  "cookieFor ''sid'' (getCookies (updateCookies [''sid=3'', ''x=9''] (updateCookies [''sid=1'', ''csrf=2''] freshManager))) = Some ''sid=3''
   \<and> cookieFor ''csrf'' (getCookies (updateCookies [''sid=3'', ''x=9''] (updateCookies [''sid=1'', ''csrf=2''] freshManager))) = Some ''csrf=2''"
  using updateCookies_merge[where A = "[''sid=1'', ''csrf=2'']" and B = "[''sid=3'', ''x=9'']"
      and sm = freshManager]
  by (simp add: lastNamed_def cookieName_def)

text \<open>
  The claim as stated fails for the empty name: the cookie \<^verbatim>\<open>=x\<close> of \<open>A\<close> has a name
  that does not occur in \<open>B\<close>, and the merged list has no entry for it.
\<close>

theorem updateCookies_merge_counterexample:
  "cookieName ''=x'' \<in> cookieName ` set [''=x'']
   \<and> cookieName ''=x'' \<notin> cookieName ` set ([] :: string list)
   \<and> cookieFor (cookieName ''=x'') (getCookies (updateCookies [] (updateCookies [''=x''] freshManager))) = None"
  by (simp add: cookieName_def cookieFor_def getCookies_def updateCookies_def freshManager_def mergeCookies_def setCookie_def)

text \<open>
  C10. When the session is null, one call of \<^verbatim>\<open>updateCookies\<close> stores the incoming list
  as it is (duplicate and empty names included) with an empty token record; one entry per
  name is reached only by the next call, which merges into the session that now exists.
\<close>

theorem updateCookies_first_call:
  "session sm = None \<Longrightarrow>
     session (updateCookies cs sm) = Some \<lparr>cookies = cs, tokens = Some [], expiresAt = None\<rparr>
   \<and> getCookies (updateCookies cs sm) = cs
   \<and> distinct (map cookieName (getCookies (updateCookies cs' (updateCookies cs sm))))"
proof -
  assume n: "session sm = None"
  have 1: "session (updateCookies cs sm) = Some \<lparr>cookies = cs, tokens = Some [], expiresAt = None\<rparr>"
    using n by (simp add: updateCookies_def)
  then have 2: "getCookies (updateCookies cs sm) = cs" by (simp add: getCookies_def)
  have "distinct (map cookieName (getCookies (updateCookies cs' (updateCookies cs sm))))"
    by (simp add: getCookies_update_existing[OF session_updateCookies] distinct_mergeCookies)
  with 1 2 show ?thesis by simp
qed

theorem updateCookies_first_call_witness:
  "session freshManager = None
   \<and> getCookies (updateCookies [''a=1'', ''a=2'', ''=x''] freshManager) = [''a=1'', ''a=2'', ''=x'']
   \<and> \<not> distinct (map cookieName [''a=1'', ''a=2'', ''=x''])
   \<and> distinct (map cookieName (getCookies (updateCookies [] (updateCookies [''a=1'', ''a=2'', ''=x''] freshManager))))"
proof -
  have h: "session freshManager = None" by (simp add: freshManager_def)
  show ?thesis
    using h updateCookies_first_call[OF h, of "[''a=1'', ''a=2'', ''=x'']" "[]"]
    by (simp add: cookieName_def)
qed

section \<open>Retry policy\<close>

lemma execute_loop_fail_continue:
  assumes "int (Suc attempt) < maxAttempts cfg"
    and "fn s = (Inl e, s')"
    and "(case p of Some q \<Rightarrow> q e | None \<Rightarrow> shouldRetry cfg e)"
  shows "execute_loop cfg sleep fn p attempt le (s, tr) =
         execute_loop cfg sleep fn p (Suc attempt) e
           (sleep (backoffMs cfg * 2 ^ attempt) s', tr\<lparr>invocations := Suc (invocations tr),
                    delays := delays tr @ [backoffMs cfg * 2 ^ attempt]\<rparr>)"
  using assms by (subst execute_loop.simps) (auto simp: Let_def split: option.splits)

lemma execute_loop_fail_last:
  assumes "int attempt < maxAttempts cfg" and "int (Suc attempt) \<ge> maxAttempts cfg"
    and "fn s = (Inl e, s')"
  shows "execute_loop cfg sleep fn p attempt le (s, tr) =
         (Inl e, s', tr\<lparr>invocations := Suc (invocations tr)\<rparr>)"
  using assms by (subst execute_loop.simps) (auto simp: Let_def)

lemma execute_loop_fail_rejected:
  assumes "int attempt < maxAttempts cfg"
    and "fn s = (Inl e, s')"
    and "\<not> q e"
  shows "execute_loop cfg sleep fn (Some q) attempt le (s, tr) =
         (Inl e, s', tr\<lparr>invocations := Suc (invocations tr)\<rparr>)"
  using assms by (subst execute_loop.simps) (auto simp: Let_def)

lemma execute_loop_fail_unmatched:
  assumes "int attempt < maxAttempts cfg"
    and "fn s = (Inl e, s')"
    and "\<not> shouldRetry cfg e"
  shows "execute_loop cfg sleep fn None attempt le (s, tr) =
         (Inl e, s', tr\<lparr>invocations := Suc (invocations tr)\<rparr>)"
  using assms by (subst execute_loop.simps) (auto simp: Let_def)

lemma execute_loop_success:
  assumes "int attempt < maxAttempts cfg"
    and "fn s = (Inr v, s')"
  shows "execute_loop cfg sleep fn p attempt le (s, tr) =
         (Inr v, s', tr\<lparr>invocations := Suc (invocations tr)\<rparr>)"
  using assms by (subst execute_loop.simps) (auto simp: Let_def)

text \<open>
  C4 (amended). With \<^verbatim>\<open>maxAttempts = 3\<close> and \<^verbatim>\<open>backoffMs = 100\<close>, an operation that fails
  on every call with a retryable failure (one the caller's predicate accepts when a predicate
  is given, otherwise one whose message contains a configured pattern) is invoked exactly 3
  times; the handler sleeps 100 ms after the first failure and 200 ms after the second, not
  after the third; and the outcome is the failure of the third invocation itself.
\<close>

theorem execute_always_failing:
  assumes cfg: "maxAttempts cfg = 3" "backoffMs cfg = 100"
    and fails: "\<forall>s. \<exists>e. fst (fn s) = Inl e \<and> (case p of Some q \<Rightarrow> q e | None \<Rightarrow> shouldRetry cfg e)"
  shows "execute cfg sleep fn p s0 =
           (fst (fn (sleep 200 (snd (fn (sleep 100 (snd (fn s0))))))),
            snd (fn (sleep 200 (snd (fn (sleep 100 (snd (fn s0))))))),
            \<lparr>invocations = 3, delays = [100, 200]\<rparr>)"
proof -
  obtain e1 s1 where f1: "fn s0 = (Inl e1, s1)" and r1: "(case p of Some q \<Rightarrow> q e1 | None \<Rightarrow> shouldRetry cfg e1)"
    using fails by (metis prod.collapse)
  obtain e2 s2 where f2: "fn (sleep 100 s1) = (Inl e2, s2)" and r2: "(case p of Some q \<Rightarrow> q e2 | None \<Rightarrow> shouldRetry cfg e2)"
    using fails by (metis prod.collapse)
  obtain e3 s3 where f3: "fn (sleep 200 s2) = (Inl e3, s3)"
    using fails by (metis prod.collapse)
  have "execute cfg sleep fn p s0 = execute_loop cfg sleep fn p 0 JsUndefined (s0, noTrace)"
    by (simp add: execute_def)
  also have "\<dots> = execute_loop cfg sleep fn p 1 e1 (sleep 100 s1, \<lparr>invocations = 1, delays = [100]\<rparr>)"
    using execute_loop_fail_continue[of 0 cfg fn s0 e1 s1 p sleep JsUndefined noTrace] cfg f1 r1
    by (simp add: noTrace_def)
  also have "\<dots> = execute_loop cfg sleep fn p 2 e2 (sleep 200 s2, \<lparr>invocations = 2, delays = [100, 200]\<rparr>)"
    using execute_loop_fail_continue[of 1 cfg fn "sleep 100 s1" e2 s2 p sleep e1 "\<lparr>invocations = 1, delays = [100]\<rparr>"] cfg f2 r2
    by (simp add: numeral_2_eq_2)
  also have "\<dots> = (Inl e3, s3, \<lparr>invocations = 3, delays = [100, 200]\<rparr>)"
    using execute_loop_fail_last[of 2 cfg fn "sleep 200 s2" e3 s3 sleep p e2 "\<lparr>invocations = 2, delays = [100, 200]\<rparr>"] cfg f3
    by (simp add: numeral_3_eq_3)
  finally show ?thesis by (simp add: f1 f2 f3)
qed

theorem execute_always_failing_witness:
  "execute \<lparr>maxAttempts = 3, backoffMs = 100, retryableErrors = [''timeout'']\<rparr>
     noSleep (failWith ''Request timeout after 30000ms'') None 0
   = (Inl (JsError ''Error'' ''Request timeout after 30000ms''), 3, \<lparr>invocations = 3, delays = [100, 200]\<rparr>)"
  using execute_always_failing[of "\<lparr>maxAttempts = 3, backoffMs = 100, retryableErrors = [''timeout'']\<rparr>"
      "failWith ''Request timeout after 30000ms''" None noSleep 0]
  by (simp add: failWith_def shouldRetry_def errorMessage_def noSleep_def)

text \<open>
  The claim as stated fails when the failure is not retryable: without a predicate and with a
  message that matches no pattern, the operation is invoked once and nothing is slept.
\<close>

theorem execute_always_failing_counterexample:
  "execute \<lparr>maxAttempts = 3, backoffMs = 100, retryableErrors = [''timeout'']\<rparr>
     noSleep (failWith ''boom'') None 0
   = (Inl (JsError ''Error'' ''boom''), 1, \<lparr>invocations = 1, delays = []\<rparr>)"
  by (simp add: execute_def execute_loop.simps failWith_def shouldRetry_def errorMessage_def noTrace_def)

text \<open>
  C9. When a predicate is supplied and is false for the first failure, the operation is
  invoked exactly once and that failure is re-raised at once, whatever the pattern list says.
\<close>

theorem execute_predicate_rejects:
  assumes "0 < maxAttempts cfg"
    and "fn s = (Inl e, s')"
    and "\<not> isRetryableError e"
  shows "execute cfg sleep fn (Some isRetryableError) s = (Inl e, s', \<lparr>invocations = 1, delays = []\<rparr>)"
  using execute_loop_fail_rejected[of 0 cfg fn s e s' isRetryableError sleep JsUndefined noTrace] assms
  by (simp add: execute_def noTrace_def)

theorem execute_predicate_rejects_witness:
  "shouldRetry \<lparr>maxAttempts = 3, backoffMs = 100, retryableErrors = [''timeout'']\<rparr> (JsError ''Error'' ''timeout'')
   \<and> execute \<lparr>maxAttempts = 3, backoffMs = 100, retryableErrors = [''timeout'']\<rparr>
        noSleep (failWith ''timeout'') (Some rejectAll) 0
      = (Inl (JsError ''Error'' ''timeout''), 1, \<lparr>invocations = 1, delays = []\<rparr>)"
  using execute_predicate_rejects[of "\<lparr>maxAttempts = 3, backoffMs = 100, retryableErrors = [''timeout'']\<rparr>"
      "failWith ''timeout''" 0 "JsError ''Error'' ''timeout''" 1 rejectAll noSleep]
  by (simp add: failWith_def shouldRetry_def errorMessage_def rejectAll_def)

section \<open>Rendering numbers\<close>

lemma showNat_small: "n < 10 \<Longrightarrow> showNat n = [digitChar n]"
  by (subst showNat.simps) simp

lemma showNat_big: "\<not> n < 10 \<Longrightarrow> showNat n = showNat (n div 10) @ [digitChar (n mod 10)]"
  by (subst showNat.simps) simp

lemmas show_simps = showNat_small showNat_big showInt_def digitChar_def

section \<open>Submitting a visit note\<close>

lemma handleRetry_not_retryable:
  assumes "fn a = (Inl e, a')" and "\<not> defaultRetryable e"
  shows "handleRetry rt fn a = (Inl e, a', \<lparr>invocations = 1, delays = []\<rparr>)"
  using execute_loop_fail_rejected[of 0 baseRetryConfig fn a e a' defaultRetryable "adapterSleep rt" JsUndefined noTrace] assms
  by (simp add: handleRetry_def execute_def noTrace_def baseRetryConfig_def)

lemma httpRequest_log:
  "httpRequest rt rq a = (r, a') \<Longrightarrow>
   requests a' = requests a @ [rq] \<and> sessionManager a' = sessionManager a"
  by (auto simp: httpRequest_def split: prod.splits sum.splits)

lemma session_lost_not_retryable:
  "\<not> defaultRetryable (authError ''Session expired or invalid. Please login again.'' c)"
  by (simp add: defaultRetryable_def authError_def isNetworkError_def)

text \<open>
  C5 (amended). For a logged-in adapter, when the scheduling page answers with status 403 or
  302 and the dashboard probe answers with 403 or 302 too, \<^verbatim>\<open>postVisitNote\<close> fails after
  one invocation with an Authentication error carrying both statuses; the only requests
  made are the two GETs, so no submission POST.
\<close>

theorem postVisitNote_session_lost:
  assumes auth: "isAuthenticated rt a"
    and sched: "httpRequest rt (schedulingRequest a) a = (Inr r1, a1)"
    and loss1: "sessionLossStatus (status r1)"
    and dash: "httpRequest rt (dashboardProbe (mergeResponseCookies r1 a1))
                 (mergeResponseCookies r1 a1) = (Inr r2, a2)"
    and loss2: "sessionLossStatus (status r2)"
  shows "postVisitNote rt n a =
           (Inl (EMRAdapterError ''Session expired or invalid. Please login again.''
                   Authentication WellSky (SessionLost (status r1) (status r2))),
            a2, \<lparr>invocations = 1, delays = []\<rparr>)
         \<and> requests a2 = requests a @ [schedulingRequest a, dashboardProbe (mergeResponseCookies r1 a1)]
         \<and> req_method (schedulingRequest a) = ''GET''
         \<and> req_method (dashboardProbe (mergeResponseCookies r1 a1)) = ''GET''"
proof -
  let ?e = "authError ''Session expired or invalid. Please login again.''
              (SessionLost (status r1) (status r2))"
  have chk: "checkSession rt r1 (mergeResponseCookies r1 a1) = (Inl ?e, a2)"
    using loss1 dash loss2 by (simp add: checkSession_def)
  have att: "postVisitNoteAttempt rt n a = (Inl ?e, a2)"
    using sched chk by (simp add: postVisitNoteAttempt_def)
  have run: "postVisitNote rt n a = (Inl ?e, a2, \<lparr>invocations = 1, delays = []\<rparr>)"
    using auth handleRetry_not_retryable[of "postVisitNoteAttempt rt n" a ?e a2 rt] att session_lost_not_retryable
    by (simp add: postVisitNote_def)
  have l1: "requests a1 = requests a @ [schedulingRequest a]"
    using httpRequest_log[OF sched] by simp
  have l2: "requests a2 = requests (mergeResponseCookies r1 a1) @ [dashboardProbe (mergeResponseCookies r1 a1)]"
    using httpRequest_log[OF dash] by simp
  have log: "requests a2 = requests a @ [schedulingRequest a, dashboardProbe (mergeResponseCookies r1 a1)]"
    using l1 l2 by (simp add: mergeResponseCookies_def)
  show ?thesis using run log
    by (simp add: authError_def schedulingRequest_def dashboardProbe_def getRequest_def)
qed

lemma loggedIn_authenticated: "isAuthenticated exampleRuntime (loggedIn script)"
  by (simp add: isAuthenticated_def loggedIn_def getSession_def isExpired_def isExpiredForSession_def)

theorem postVisitNote_session_lost_witness:
  "fst (postVisitNote exampleRuntime exampleNote
          (loggedIn [Inr (plainResponse 403 ''Forbidden'' (JStr [])),
                     Inr (plainResponse 403 ''Forbidden'' (JStr [])),
                     Inr (plainResponse 200 ''OK'' (JStr ''saved''))]))
     = Inl (EMRAdapterError ''Session expired or invalid. Please login again.''
              Authentication WellSky (SessionLost 403 403))
   \<and> snd (snd (postVisitNote exampleRuntime exampleNote
          (loggedIn [Inr (plainResponse 403 ''Forbidden'' (JStr [])),
                     Inr (plainResponse 403 ''Forbidden'' (JStr [])),
                     Inr (plainResponse 200 ''OK'' (JStr ''saved''))])))
     = \<lparr>invocations = 1, delays = []\<rparr>"
proof -
  let ?r = "plainResponse 403 ''Forbidden'' (JStr [])"
  let ?rest = "[Inr (plainResponse 200 ''OK'' (JStr ''saved''))] :: Script"
  let ?a = "loggedIn (Inr ?r # Inr ?r # ?rest)"
  let ?a1 = "?a\<lparr>world := Inr ?r # ?rest, requests := [schedulingRequest ?a]\<rparr>"
  let ?a1' = "mergeResponseCookies ?r ?a1"
  let ?a2 = "?a1'\<lparr>world := ?rest, requests := [schedulingRequest ?a, dashboardProbe ?a1']\<rparr>"
  have auth: "isAuthenticated exampleRuntime ?a" by (rule loggedIn_authenticated)
  have sched: "httpRequest exampleRuntime (schedulingRequest ?a) ?a = (Inr ?r, ?a1)"
    by (simp add: httpRequest_def exampleRuntime_def scriptedFetch_def loggedIn_def)
  have loss: "sessionLossStatus (status ?r)"
    by (simp add: sessionLossStatus_def plainResponse_def)
  have dash: "httpRequest exampleRuntime (dashboardProbe ?a1') ?a1' = (Inr ?r, ?a2)"
    by (simp add: httpRequest_def exampleRuntime_def scriptedFetch_def loggedIn_def mergeResponseCookies_def)
  show ?thesis
    using postVisitNote_session_lost[OF auth sched loss dash loss, of exampleNote]
    by (simp add: plainResponse_def)
qed

lemma postVisitNote_server_error_once:
  assumes auth: "isAuthenticated rt a"
    and att: "postVisitNoteAttempt rt n a =
                (Inl (EMRAdapterError msg EMRSpecific WellSky (ResponseCause resp)), a')"
    and srv: "isServerError (status resp)"
    and plain: "\<not> isNetworkError (EMRAdapterError msg EMRSpecific WellSky (ResponseCause resp))"
  shows "postVisitNote rt n a =
           (Inl (EMRAdapterError msg EMRSpecific WellSky (ResponseCause resp)), a',
            \<lparr>invocations = 1, delays = []\<rparr>)"
proof -
  have "\<not> defaultRetryable (EMRAdapterError msg EMRSpecific WellSky (ResponseCause resp))"
    using plain by (simp add: defaultRetryable_def)
  from handleRetry_not_retryable[where fn = "postVisitNoteAttempt rt n" and a = a, OF att this] auth
  show ?thesis
    by (simp add: postVisitNote_def)
qed

lemmas example_defs =
  httpRequest_def exampleRuntime_def scriptedFetch_def loggedIn_def mergeResponseCookies_def
  plainResponse_def schedulingRequest_def getRequest_def postRequest_def submitRequest_def
  getCookies_def getTokens_def updateCookies_def updateTokens_def mergeCookies_def setCookie_def
  cookieName_def spreadTokens_def checkSession_def sessionLossStatus_def refreshToken_def
  extractCSRFToken_def tryPattern_def exampleCapture_def tokenPage_def transform_def
  exampleNote_def metadataProp_def stringOpt_def formatDate_def padStart2_def formEntries_def
  submissionOutcome_def wellskyBaseUrl_def authError_def

lemma example_attempt_500:
  "postVisitNoteAttempt exampleRuntime exampleNote
     (loggedIn [Inr (plainResponse 200 ''OK'' (JStr tokenPage)),
                Inr (plainResponse 500 ''Internal Server Error'' (JStr ''oops'')),
                Inr (plainResponse 200 ''OK'' (JStr tokenPage)),
                Inr (plainResponse 200 ''OK'' (JStr ''saved''))])
   = (Inl (EMRAdapterError ''WellSky post visit note failed with status 500 Internal Server Error''
             EMRSpecific WellSky
             (ResponseCause (plainResponse 500 ''Internal Server Error'' (JStr ''oops'')))),
      \<lparr>sessionManager =
         \<lparr>session = Some \<lparr>cookies = [''sessionid=abc''], tokens = Some [(''csrf'', ''tok123'')],
                           expiresAt = None\<rparr>,
          sessionFilePath = None\<rparr>,
       world = [Inr (plainResponse 200 ''OK'' (JStr tokenPage)),
                Inr (plainResponse 200 ''OK'' (JStr ''saved''))],
       requests =
         [getRequest ''https://avasandbox.clearcareonline.com/scheduling/''
            [(''Referer'', ''https://avasandbox.clearcareonline.com/dashboard/live/'')]
            [''sessionid=abc''],
          postRequest ''https://avasandbox.clearcareonline.com/scheduling/note/add/''
            [(''Content-Type'', ''application/x-www-form-urlencoded''),
             (''Referer'', ''https://avasandbox.clearcareonline.com/dashboard/live/''),
             (''Origin'', ''https://avasandbox.clearcareonline.com'')]
            [(''carelog'', []), (''shift'', ''123''), (''unavailability'', []),
             (''date'', ''12/22/2025''), (''tags'', ''38060''), (''note'', ''ok''),
             (''show_with_billing'', ''on''), (''show_with_payroll'', ''on''),
             (''csrfmiddlewaretoken'', ''tok123'')]
            [''sessionid=abc''] True]\<rparr>)"
  unfolding postVisitNoteAttempt_def Let_def
  by (simp add: example_defs show_simps)

text \<open>
  C2. The claim is that a submission POST answered with a status in 500..599 is classified
  as a server failure and retried. The code does not do so: for a logged-in adapter whose
  POST is answered with 500 Internal Server Error the operation is invoked once and the
  error is re-raised without a retry, although two more answers were waiting. The thrown
  \<^verbatim>\<open>EMRAdapterError\<close> has no \<^verbatim>\<open>status\<close> property, so the server-failure test of
  \<^verbatim>\<open>handleRetry\<close> never holds.
\<close>

theorem postVisitNote_server_error_example:
  "fst (postVisitNote exampleRuntime exampleNote
     (loggedIn [Inr (plainResponse 200 ''OK'' (JStr tokenPage)),
                Inr (plainResponse 500 ''Internal Server Error'' (JStr ''oops'')),
                Inr (plainResponse 200 ''OK'' (JStr tokenPage)),
                Inr (plainResponse 200 ''OK'' (JStr ''saved''))]))
   = Inl (EMRAdapterError ''WellSky post visit note failed with status 500 Internal Server Error''
            EMRSpecific WellSky
            (ResponseCause (plainResponse 500 ''Internal Server Error'' (JStr ''oops''))))
   \<and> snd (snd (postVisitNote exampleRuntime exampleNote
     (loggedIn [Inr (plainResponse 200 ''OK'' (JStr tokenPage)),
                Inr (plainResponse 500 ''Internal Server Error'' (JStr ''oops'')),
                Inr (plainResponse 200 ''OK'' (JStr tokenPage)),
                Inr (plainResponse 200 ''OK'' (JStr ''saved''))])))
   = \<lparr>invocations = 1, delays = []\<rparr>"
  using postVisitNote_server_error_once[OF loggedIn_authenticated example_attempt_500]
  by (simp add: isServerError_def isNetworkError_def plainResponse_def)

text \<open>
  C1 (amended). For every record in which one of visitId, patientId, caregiverId, note or
  visitDate is empty or absent, \<^verbatim>\<open>VisitNoteService.postVisitNote\<close> fails with the adapter
  untouched (no request, no invocation of the operation); the failure is the plain
  \<^verbatim>\<open>Error\<close> of the validation, naming a missing field, and is not wrapped.
\<close>

theorem service_rejects_invalid_note:
  assumes "falsy (visitId n) \<or> falsy (patientId n) \<or> falsy (caregiverId n)
           \<or> falsy (noteText n) \<or> visitDate n = None"
  shows "servicePostVisitNote rt emrType n a =
           (Inl (JsError ''Error''
                   (if falsy (visitId n) then ''visitId is required''
                    else if falsy (patientId n) then ''patientId is required''
                    else if falsy (caregiverId n) then ''caregiverId is required''
                    else if falsy (noteText n) then ''note content is required''
                    else ''visitDate is required'')),
            a, noTrace)"
  using assms by (auto simp: servicePostVisitNote_def validateVisitNote_def)

theorem service_rejects_invalid_note_witness:
  "servicePostVisitNote exampleRuntime WellSky (exampleNote\<lparr>patientId := Some []\<rparr>) (loggedIn [])
   = (Inl (JsError ''Error'' ''patientId is required''), loggedIn [], noTrace)"
  using service_rejects_invalid_note[of "exampleNote\<lparr>patientId := Some []\<rparr>" exampleRuntime WellSky "loggedIn []"]
  by (simp add: falsy_def exampleNote_def servicePostVisitNote_def validateVisitNote_def)

text \<open>
  The claim as stated fails: the failure for a record without visitId is a plain Error, not
  an \<^verbatim>\<open>EMRAdapterError\<close>, and carries no Validation kind.
\<close>

theorem service_rejects_invalid_note_counterexample:
  "fst (servicePostVisitNote exampleRuntime WellSky (exampleNote\<lparr>visitId := None\<rparr>) (loggedIn []))
     = Inl (JsError ''Error'' ''visitId is required'')
   \<and> \<not> isEMRAdapterError (JsError ''Error'' ''visitId is required'')
   \<and> typeProp (JsError ''Error'' ''visitId is required'') \<noteq> Some Validation"
  by (simp add: servicePostVisitNote_def validateVisitNote_def falsy_def exampleNote_def)

text \<open>
  The end-to-end scenario: the example record, submitted through the service to a vendor that
  answers 200, gives a successful result that echoes the visit identifier and the payload.
\<close>

lemma handleRetry_success:
  assumes "fn a = (Inr v, a')"
  shows "handleRetry rt fn a = (Inr v, a', \<lparr>invocations = 1, delays = []\<rparr>)"
  using execute_loop_success[where attempt = 0 and cfg = baseRetryConfig and fn = fn and s = a
      and v = v and s' = a' and sleep = "adapterSleep rt" and p = "Some defaultRetryable"
      and le = JsUndefined and tr = noTrace] assms
  by (simp add: handleRetry_def execute_def noTrace_def baseRetryConfig_def)

lemma example_attempt_200:
  "fst (postVisitNoteAttempt exampleRuntime exampleNote
     (loggedIn [Inr (plainResponse 200 ''OK'' (JStr tokenPage)),
                Inr (plainResponse 200 ''OK'' (JStr ''saved''))]))
   = Inr \<lparr>success = True, result_visitId = Some ''123'', timestamp = 1766400000000,
          request = Some \<lparr>carelog = [], shift = ''123'', unavailability = [],
                          date = ''12/22/2025'', tags = JStr ''38060'', req_note = Some ''ok'',
                          show_with_billing = ''on'', show_with_payroll = ''on'',
                          csrfmiddlewaretoken = Some ''tok123''\<rparr>,
          response = Some (JStr ''saved''), error = None\<rparr>"
  unfolding postVisitNoteAttempt_def Let_def
  by (simp add: example_defs show_simps)

lemma example_submission_succeeds:
  "fst (servicePostVisitNote exampleRuntime WellSky exampleNote
     (loggedIn [Inr (plainResponse 200 ''OK'' (JStr tokenPage)),
                Inr (plainResponse 200 ''OK'' (JStr ''saved''))]))
   = Inr \<lparr>success = True, result_visitId = Some ''123'', timestamp = 1766400000000,
          request = Some \<lparr>carelog = [], shift = ''123'', unavailability = [],
                          date = ''12/22/2025'', tags = JStr ''38060'', req_note = Some ''ok'',
                          show_with_billing = ''on'', show_with_payroll = ''on'',
                          csrfmiddlewaretoken = Some ''tok123''\<rparr>,
          response = Some (JStr ''saved''), error = None\<rparr>"
proof -
  let ?a = "loggedIn [Inr (plainResponse 200 ''OK'' (JStr tokenPage)),
                      Inr (plainResponse 200 ''OK'' (JStr ''saved''))]"
  obtain r a' where att: "postVisitNoteAttempt exampleRuntime exampleNote ?a = (r, a')"
    by (cases "postVisitNoteAttempt exampleRuntime exampleNote ?a")
  with example_attempt_200 obtain v where r: "r = Inr v"
    and v: "v = \<lparr>success = True, result_visitId = Some ''123'', timestamp = 1766400000000,
          request = Some \<lparr>carelog = [], shift = ''123'', unavailability = [],
                          date = ''12/22/2025'', tags = JStr ''38060'', req_note = Some ''ok'',
                          show_with_billing = ''on'', show_with_payroll = ''on'',
                          csrfmiddlewaretoken = Some ''tok123''\<rparr>,
          response = Some (JStr ''saved''), error = None\<rparr>"
    by simp
  have valid: "validateVisitNote exampleNote = Inr ()"
    by (simp add: validateVisitNote_def exampleNote_def falsy_def)
  have "postVisitNote exampleRuntime exampleNote ?a = (Inr v, a', \<lparr>invocations = 1, delays = []\<rparr>)"
    using handleRetry_success[where fn = "postVisitNoteAttempt exampleRuntime exampleNote" and a = ?a
        and v = v and a' = a' and rt = exampleRuntime] att r loggedIn_authenticated
    by (simp add: postVisitNote_def)
  with valid v show ?thesis by (simp add: servicePostVisitNote_def)
qed

lemmas redirecting_defs =
  httpRequest_def redirectingRuntime_def redirectingFetch_def loggedIn_def mergeResponseCookies_def
  plainResponse_def schedulingRequest_def dashboardProbe_def getRequest_def postRequest_def
  submitRequest_def
  getCookies_def getTokens_def updateCookies_def updateTokens_def mergeCookies_def setCookie_def
  cookieName_def spreadTokens_def checkSession_def sessionLossStatus_def refreshToken_def
  transform_def exampleNote_def metadataProp_def stringOpt_def formatDate_def padStart2_def
  formEntries_def submissionOutcome_def wellskyBaseUrl_def authError_def

lemma redirecting_attempt:
  "postVisitNoteAttempt redirectingRuntime exampleNote (loggedIn ())
   = (Inr \<lparr>success = True, result_visitId = Some ''123'', timestamp = 1766400000000,
            request = Some \<lparr>carelog = [], shift = ''123'', unavailability = [],
                            date = ''12/22/2025'', tags = JStr ''38060'', req_note = Some ''ok'',
                            show_with_billing = ''on'', show_with_payroll = ''on'',
                            csrfmiddlewaretoken = Some ''tok0''\<rparr>,
            response = Some (JStr ''saved''), error = None\<rparr>,
      (loggedIn ())\<lparr>requests :=
         [schedulingRequest (loggedIn ()),
          submitRequest \<lparr>carelog = [], shift = ''123'', unavailability = [],
                          date = ''12/22/2025'', tags = JStr ''38060'', req_note = Some ''ok'',
                          show_with_billing = ''on'', show_with_payroll = ''on'',
                          csrfmiddlewaretoken = Some ''tok0''\<rparr> (loggedIn ())]\<rparr>)"
  unfolding postVisitNoteAttempt_def Let_def
  by (simp add: redirecting_defs show_simps)

text \<open>
  The claim as stated fails for a redirect other than 302: with a vendor that answers the
  scheduling page (and would answer the dashboard) with 307, a logged-in adapter makes no
  probe, submits the note with the stored token and reports success.
\<close>

theorem postVisitNote_session_lost_counterexample:
  "isAuthenticated redirectingRuntime (loggedIn ())
   \<and> fst (fetch redirectingRuntime () (schedulingRequest (loggedIn ())))
       = Inr (plainResponse 307 ''Temporary Redirect'' (JStr []))
   \<and> fst (fetch redirectingRuntime () (dashboardProbe (loggedIn ())))
       = Inr (plainResponse 307 ''Temporary Redirect'' (JStr []))
   \<and> fst (postVisitNote redirectingRuntime exampleNote (loggedIn ()))
       = Inr \<lparr>success = True, result_visitId = Some ''123'', timestamp = 1766400000000,
              request = Some \<lparr>carelog = [], shift = ''123'', unavailability = [],
                              date = ''12/22/2025'', tags = JStr ''38060'', req_note = Some ''ok'',
                              show_with_billing = ''on'', show_with_payroll = ''on'',
                              csrfmiddlewaretoken = Some ''tok0''\<rparr>,
              response = Some (JStr ''saved''), error = None\<rparr>
   \<and> map req_method (requests (fst (snd (postVisitNote redirectingRuntime exampleNote (loggedIn ())))))
       = [''GET'', ''POST'']"
proof -
  have auth: "isAuthenticated redirectingRuntime (loggedIn ())"
    by (simp add: isAuthenticated_def loggedIn_def getSession_def isExpired_def isExpiredForSession_def)
  have f1: "fst (fetch redirectingRuntime () (schedulingRequest (loggedIn ())))
       = Inr (plainResponse 307 ''Temporary Redirect'' (JStr []))"
    by (simp add: redirectingRuntime_def redirectingFetch_def schedulingRequest_def getRequest_def)
  have f2: "fst (fetch redirectingRuntime () (dashboardProbe (loggedIn ())))
       = Inr (plainResponse 307 ''Temporary Redirect'' (JStr []))"
    by (simp add: redirectingRuntime_def redirectingFetch_def dashboardProbe_def getRequest_def)
  note run = handleRetry_success[where fn = "postVisitNoteAttempt redirectingRuntime exampleNote"
      and rt = redirectingRuntime, OF redirecting_attempt]
  have r: "fst (postVisitNote redirectingRuntime exampleNote (loggedIn ()))
       = Inr \<lparr>success = True, result_visitId = Some ''123'', timestamp = 1766400000000,
              request = Some \<lparr>carelog = [], shift = ''123'', unavailability = [],
                              date = ''12/22/2025'', tags = JStr ''38060'', req_note = Some ''ok'',
                              show_with_billing = ''on'', show_with_payroll = ''on'',
                              csrfmiddlewaretoken = Some ''tok0''\<rparr>,
              response = Some (JStr ''saved''), error = None\<rparr>"
    using auth run by (simp add: postVisitNote_def)
  have l: "map req_method (requests (fst (snd (postVisitNote redirectingRuntime exampleNote (loggedIn ())))))
       = [''GET'', ''POST'']"
    using auth run
    by (simp add: postVisitNote_def schedulingRequest_def submitRequest_def getRequest_def postRequest_def)
  from auth f1 f2 r l show ?thesis by blast
qed

section \<open>Authentication\<close>

lemma wrapAuthError_kind: "rawOrAuth e \<Longrightarrow> authFailure (wrapAuthError e)"
  by (cases e) (simp_all add: wrapAuthError_def authError_def)

lemma httpRequest_raw: "httpRequest rt rq a = (Inl e, a') \<Longrightarrow> rawOrAuth e"
  by (auto simp: httpRequest_def split: prod.splits sum.splits if_splits)

lemma fetchLoginPage_raw: "fetchLoginPage rt cr a = (Inl e, a') \<Longrightarrow> rawOrAuth e"
  by (auto simp: fetchLoginPage_def Let_def authError_def
           dest: httpRequest_raw split: prod.splits sum.splits option.splits)

lemma multiloginVerdict_raw: "multiloginVerdict rt resp = Some e \<Longrightarrow> rawOrAuth e"
  by (auto simp: multiloginVerdict_def authError_def split: if_splits json.splits)

lemma multilogin_raw: "multilogin rt cr tok a = (Inl e, a') \<Longrightarrow> rawOrAuth e"
  by (auto simp: multilogin_def Let_def
           dest: httpRequest_raw multiloginVerdict_raw split: prod.splits sum.splits option.splits)

lemma primaryLogin_raw: "primaryLogin rt cr tok a = (Inl e, a') \<Longrightarrow> rawOrAuth e"
  by (auto simp: primaryLogin_def dest: httpRequest_raw split: prod.splits sum.splits)

lemma completeLogin_raw: "completeLogin rt cr tok resp a = (Inl e, a') \<Longrightarrow> rawOrAuth e"
  by (auto simp: completeLogin_def Let_def authError_def
           dest: httpRequest_raw split: prod.splits sum.splits if_splits)

lemma authenticateSteps_raw: "authenticateSteps rt cr a = (Inl e, a') \<Longrightarrow> rawOrAuth e"
  by (auto simp: authenticateSteps_def
           dest: fetchLoginPage_raw multilogin_raw primaryLogin_raw completeLogin_raw
           split: prod.splits sum.splits)

lemma authenticate_failure_kind:
  "authenticate rt cr a = (Inl e, a') \<Longrightarrow> authFailure e"
  by (auto simp: authenticate_def dest: authenticateSteps_raw wrapAuthError_kind
           split: prod.splits sum.splits)

lemma authFailure_shape:
  "authFailure e \<Longrightarrow> \<exists>msg c. e = EMRAdapterError msg Authentication WellSky c"
  by (cases e) simp_all

lemma authenticate_after_login:
  assumes "fetchLoginPage rt cr a = (Inr csrfToken, a1)"
    and "multilogin rt cr csrfToken a1 = (Inr (), a2)"
    and "primaryLogin rt cr csrfToken a2 = (Inr loginResponse, a3)"
  shows "authenticate rt cr a =
           (case completeLogin rt cr csrfToken loginResponse a3 of
              (Inl e, a') \<Rightarrow> (Inl (wrapAuthError e), a')
            | (Inr sess, a') \<Rightarrow> (Inr sess, a'))"
  using assms by (simp add: authenticate_def authenticateSteps_def)

text \<open>
  C3 (amended). Once the login page gave a token, the multilogin step passed and the primary
  login submission returned a response, \<^verbatim>\<open>authenticate\<close> succeeds exactly when that
  response has status 302, its Location header contains \<^verbatim>\<open>/dashboard\<close> or \<^verbatim>\<open>/live\<close>,
  and the follow-up GET of that location returns a response. The session it then returns
  and stores has the scraped token under \<^verbatim>\<open>csrf\<close>. Every failure of \<^verbatim>\<open>authenticate\<close> is
  an Authentication-kind adapter error.
\<close>

theorem authenticate_outcome:
  assumes tok: "fetchLoginPage rt cr a = (Inr csrfToken, a1)"
    and ml: "multilogin rt cr csrfToken a1 = (Inr (), a2)"
    and pl: "primaryLogin rt cr csrfToken a2 = (Inr loginResponse, a3)"
  shows "((\<exists>sess a'. authenticate rt cr a = (Inr sess, a')) \<longleftrightarrow>
            status loginResponse = 302 \<and> postLoginLocation loginResponse
            \<and> (\<exists>r a4. httpRequest rt
                  (getRequest (dashboardUrl cr loginResponse) [] (getCookies (sessionManager a3))) a3
                  = (Inr r, a4)))
       \<and> (\<forall>sess a'. authenticate rt cr a = (Inr sess, a') \<longrightarrow>
             tokens sess = Some [(''csrf'', csrfToken)]
             \<and> getSession (sessionManager a') = Some sess)
       \<and> (\<forall>e a'. authenticate rt cr a = (Inl e, a') \<longrightarrow>
             (\<exists>msg c. e = EMRAdapterError msg Authentication WellSky c))"
proof -
  note run = authenticate_after_login[OF tok ml pl]
  let ?follow = "httpRequest rt
      (getRequest (dashboardUrl cr loginResponse) [] (getCookies (sessionManager a3))) a3"
  have iff: "(\<exists>sess a'. authenticate rt cr a = (Inr sess, a')) \<longleftrightarrow>
            status loginResponse = 302 \<and> postLoginLocation loginResponse
            \<and> (\<exists>r a4. ?follow = (Inr r, a4))"
  proof (cases "status loginResponse = 302 \<and> postLoginLocation loginResponse")
    case False
    then show ?thesis unfolding run by (auto simp: completeLogin_def)
  next
    case True
    obtain res a4 where f: "?follow = (res, a4)" by (cases ?follow)
    show ?thesis
    proof (cases res)
      case (Inl e)
      with True f show ?thesis unfolding run by (simp add: completeLogin_def)
    next
      case (Inr r)
      with True f show ?thesis unfolding run by (simp add: completeLogin_def Let_def)
    qed
  qed
  have ok: "\<forall>sess a'. authenticate rt cr a = (Inr sess, a') \<longrightarrow>
             tokens sess = Some [(''csrf'', csrfToken)] \<and> getSession (sessionManager a') = Some sess"
    unfolding run
    by (auto simp: completeLogin_def Let_def setSession_def getSession_def
             split: prod.splits sum.splits if_splits)
  have bad: "\<forall>e a'. authenticate rt cr a = (Inl e, a') \<longrightarrow>
             (\<exists>msg c. e = EMRAdapterError msg Authentication WellSky c)"
    using authenticate_failure_kind[of rt cr a] authFailure_shape by blast
  from iff ok bad show ?thesis by blast
qed

lemma scripted_answer:
  "world a = Inr resp # rest \<Longrightarrow>
   httpRequest exampleRuntime rq a = (Inr resp, a\<lparr>world := rest, requests := requests a @ [rq]\<rparr>)"
  by (simp add: httpRequest_def exampleRuntime_def scriptedFetch_def)

lemma scripted_exhausted:
  "world a = [] \<Longrightarrow>
   httpRequest exampleRuntime rq a =
     (Inl (JsError ''TypeError'' ''fetch failed''), a\<lparr>world := [], requests := requests a @ [rq]\<rparr>)"
  by (simp add: httpRequest_def exampleRuntime_def scriptedFetch_def)

lemma example_fetchLoginPage:
  assumes "world a = Inr (plainResponse 200 ''OK'' (JStr tokenPage)) # rest"
  shows "\<exists>a1. fetchLoginPage exampleRuntime cr a = (Inr ''tok123'', a1) \<and> world a1 = rest"
  unfolding fetchLoginPage_def scripted_answer[OF assms] Let_def
  by (simp add: extractCSRFToken_def tryPattern_def exampleRuntime_def exampleCapture_def
        plainResponse_def mergeResponseCookies_def tokenPage_def)

lemma example_multilogin:
  assumes "world a = Inr (plainResponse 200 ''OK'' (JObj [(''success'', JBool True)])) # rest"
  shows "\<exists>a1. multilogin exampleRuntime cr tok a = (Inr (), a1) \<and> world a1 = rest"
  unfolding multilogin_def scripted_answer[OF assms] Let_def
  by (simp add: multiloginVerdict_def truthyOpt_def plainResponse_def mergeResponseCookies_def)

lemma example_primaryLogin:
  assumes "world a = Inr resp # rest"
  shows "\<exists>a1. primaryLogin exampleRuntime cr tok a = (Inr resp, a1) \<and> world a1 = rest"
  unfolding primaryLogin_def scripted_answer[OF assms]
  by (simp add: mergeResponseCookies_def)

lemma loginRedirect_ok: "status loginRedirect = 302 \<and> postLoginLocation loginRedirect"
  by (simp add: loginRedirect_def postLoginLocation_def locationOf_def)

theorem authenticate_outcome_witness:
  "\<exists>sess a'. authenticate exampleRuntime exampleCredentials
      (newAdapter (loginScript @ [Inr (plainResponse 200 ''OK'' (JStr ''dashboard''))]))
      = (Inr sess, a')
     \<and> tokens sess = Some [(''csrf'', ''tok123'')]"
proof -
  let ?dash = "Inr (plainResponse 200 ''OK'' (JStr ''dashboard'')) :: (string \<times> string) + HTTPResponse"
  let ?a = "newAdapter (loginScript @ [?dash])"
  have w0: "world ?a = Inr (plainResponse 200 ''OK'' (JStr tokenPage))
              # [Inr (plainResponse 200 ''OK'' (JObj [(''success'', JBool True)])), Inr loginRedirect, ?dash]"
    by (simp add: newAdapter_def loginScript_def)
  from example_fetchLoginPage[OF w0] obtain a1 where
    p1: "fetchLoginPage exampleRuntime exampleCredentials ?a = (Inr ''tok123'', a1)"
    and w1: "world a1 = [Inr (plainResponse 200 ''OK'' (JObj [(''success'', JBool True)])), Inr loginRedirect, ?dash]"
    by blast
  from example_multilogin[OF w1] obtain a2 where
    p2: "multilogin exampleRuntime exampleCredentials ''tok123'' a1 = (Inr (), a2)"
    and w2: "world a2 = [Inr loginRedirect, ?dash]"
    by blast
  from example_primaryLogin[OF w2] obtain a3 where
    p3: "primaryLogin exampleRuntime exampleCredentials ''tok123'' a2 = (Inr loginRedirect, a3)"
    and w3: "world a3 = [?dash]"
    by blast
  have follow: "\<exists>r a4. httpRequest exampleRuntime
      (getRequest (dashboardUrl exampleCredentials loginRedirect) [] (getCookies (sessionManager a3))) a3
      = (Inr r, a4)"
    using scripted_answer[OF w3] by blast
  from authenticate_outcome[OF p1 p2 p3] loginRedirect_ok follow
  show ?thesis by blast
qed

text \<open>
  The claim as stated fails: the primary login submission returns 302 with the location
  \<^verbatim>\<open>/dashboard/live/\<close>, the follow-up request fails, and so does \<^verbatim>\<open>authenticate\<close>.
\<close>

theorem authenticate_outcome_counterexample:
  "status loginRedirect = 302 \<and> postLoginLocation loginRedirect
   \<and> fst (authenticate exampleRuntime exampleCredentials (newAdapter loginScript))
       = Inl (EMRAdapterError ''WellSky authentication error: fetch failed'' Authentication WellSky
                (Caught (JsError ''TypeError'' ''fetch failed'')))"
proof -
  let ?a = "newAdapter loginScript"
  have w0: "world ?a = Inr (plainResponse 200 ''OK'' (JStr tokenPage))
              # [Inr (plainResponse 200 ''OK'' (JObj [(''success'', JBool True)])), Inr loginRedirect]"
    by (simp add: newAdapter_def loginScript_def)
  from example_fetchLoginPage[OF w0] obtain a1 where
    p1: "fetchLoginPage exampleRuntime exampleCredentials ?a = (Inr ''tok123'', a1)"
    and w1: "world a1 = [Inr (plainResponse 200 ''OK'' (JObj [(''success'', JBool True)])), Inr loginRedirect]"
    by blast
  from example_multilogin[OF w1] obtain a2 where
    p2: "multilogin exampleRuntime exampleCredentials ''tok123'' a1 = (Inr (), a2)"
    and w2: "world a2 = [Inr loginRedirect]"
    by blast
  from example_primaryLogin[OF w2] obtain a3 where
    p3: "primaryLogin exampleRuntime exampleCredentials ''tok123'' a2 = (Inr loginRedirect, a3)"
    and w3: "world a3 = []"
    by blast
  have "fst (authenticate exampleRuntime exampleCredentials ?a)
       = Inl (EMRAdapterError ''WellSky authentication error: fetch failed'' Authentication WellSky
                (Caught (JsError ''TypeError'' ''fetch failed'')))"
    unfolding authenticate_after_login[OF p1 p2 p3]
    using loginRedirect_ok
    by (simp add: completeLogin_def scripted_exhausted[OF w3] wrapAuthError_def authError_def messageText_def)
  with loginRedirect_ok show ?thesis by simp
qed

section \<open>Transformation\<close>

text \<open>
  C8. \<^verbatim>\<open>transform\<close> is a function of the record (and of the runtime's calendar) alone. For
  two records that differ at most in \<^verbatim>\<open>metadata.tags\<close>, either both calls throw the same
  error or both return requests that are equal in every field except possibly \<open>tags\<close>, with
  both display flags \<^verbatim>\<open>on\<close>; when the tags entry agrees too, the outputs are identical.
\<close>

theorem transform_tags_only:
  assumes same: "sameExceptTags n1 n2"
  shows "(case (transform rt n1, transform rt n2) of
            (Inr r1, Inr r2) \<Rightarrow>
              r2 = r1\<lparr>tags := tags r2\<rparr>
              \<and> show_with_billing r1 = ''on'' \<and> show_with_payroll r1 = ''on''
          | (Inl e1, Inl e2) \<Rightarrow> e1 = e2
          | _ \<Rightarrow> False)
       \<and> (metadataProp n1 ''tags'' = metadataProp n2 ''tags'' \<longrightarrow> transform rt n1 = transform rt n2)"
proof -
  have sh: "metadataProp n1 ''shift'' = metadataProp n2 ''shift''"
  proof (cases "''shift'' \<in> set (metadataKeys n1 @ metadataKeys n2)")
    case True
    with same show ?thesis by (simp add: sameExceptTags_def)
  next
    case False
    then have "metadataProp n1 ''shift'' = None" "metadataProp n2 ''shift'' = None"
      by (auto simp: metadataKeys_def metadataProp_def map_of_eq_None_iff split: option.splits)
    then show ?thesis by simp
  qed
  from same have f: "visitId n1 = visitId n2" "visitDate n1 = visitDate n2" "noteText n1 = noteText n2"
    by (simp_all add: sameExceptTags_def)
  show ?thesis
  proof (cases "visitDate n1")
    case None
    then have "visitDate n2 = None" using f by simp
    with None show ?thesis by (simp add: transform_def)
  next
    case (Some d)
    then have "visitDate n2 = Some d" using f by simp
    with Some f(1,3) sh show ?thesis by (auto simp: transform_def split: option.splits)
  qed
qed

theorem transform_tags_only_witness:
  "transform exampleRuntime (exampleNote\<lparr>metadata := Some [(''tags'', JStr ''777'')]\<rparr>)
   = Inr \<lparr>carelog = [], shift = ''123'', unavailability = [], date = ''12/22/2025'',
          tags = JStr ''777'', req_note = Some ''ok'', show_with_billing = ''on'',
          show_with_payroll = ''on'', csrfmiddlewaretoken = None\<rparr>
   \<and> transform exampleRuntime exampleNote
   = Inr \<lparr>carelog = [], shift = ''123'', unavailability = [], date = ''12/22/2025'',
          tags = JStr ''38060'', req_note = Some ''ok'', show_with_billing = ''on'',
          show_with_payroll = ''on'', csrfmiddlewaretoken = None\<rparr>"
proof -
  have s: "sameExceptTags exampleNote (exampleNote\<lparr>metadata := Some [(''tags'', JStr ''777'')]\<rparr>)"
    by (simp add: sameExceptTags_def metadataKeys_def metadataProp_def exampleNote_def)
  have t: "transform exampleRuntime exampleNote
   = Inr \<lparr>carelog = [], shift = ''123'', unavailability = [], date = ''12/22/2025'',
          tags = JStr ''38060'', req_note = Some ''ok'', show_with_billing = ''on'',
          show_with_payroll = ''on'', csrfmiddlewaretoken = None\<rparr>"
    by (simp add: transform_def exampleNote_def metadataProp_def stringOpt_def formatDate_def
          exampleRuntime_def padStart2_def showInt_def showNat.simps digitChar_def)
  have g: "tags (case transform exampleRuntime (exampleNote\<lparr>metadata := Some [(''tags'', JStr ''777'')]\<rparr>)
                  of Inr r \<Rightarrow> r) = JStr ''777''"
    by (simp add: transform_def exampleNote_def metadataProp_def)
  show ?thesis
    using transform_tags_only[OF s, of exampleRuntime] t g
    by (auto split: sum.splits)
qed

section \<open>Saving and loading\<close>

lemma those_strings: "those (map (asString \<circ> JStr) cs) = Some cs"
  by (induction cs) simp_all

lemma those_tokens:
  "those (map ((\<lambda>kv. map_option (Pair (fst kv)) (asString (snd kv))) \<circ> (\<lambda>kv. (fst kv, JStr (snd kv)))) ts)
   = Some ts"
  by (induction ts) simp_all

lemma asStringList_roundtrip: "asStringList (JArr (map JStr cs)) = Some cs"
  by (simp add: those_strings)

lemma asTokens_roundtrip:
  "asTokens (JObj (map (\<lambda>kv. (fst kv, JStr (snd kv))) ts)) = Some ts"
  by (simp add: those_tokens)

lemma asTokens_empty: "asTokens (JObj []) = Some []"
  by simp

lemma saveSession_writes:
  assumes "sessionFilePath sm = Some p" "p \<noteq> []" "session sm = Some s"
    and "p \<notin> set (readOnly fs)" and "sessionData dc s = Inr data"
  shows "map_of (files (saveSession dc sm fs)) p = Some (JsonText data)"
  using assms by (simp add: saveSession_def update_conv')

lemma loadSession_reads:
  assumes "sessionFilePath sm = Some p" "p \<noteq> []" "map_of (files fs) p = Some (JsonText data)"
  shows "loadSession dc now sm fs = sessionFromData dc now data sm"
  using assms by (simp add: loadSession_def existsSync_def)

lemma sessionFromData_roundtrip:
  assumes valid: "expiresAt s \<noteq> Some InvalidDate"
    and codec: "\<forall>t. expiresAt s = Some (Instant t) \<longrightarrow>
                  parseDate dc (toISOString dc t) = Instant t \<and> toISOString dc t \<noteq> []"
    and fresh: "\<not> isExpiredForSession now s"
    and data: "sessionData dc s = Inr data"
  shows "sessionFromData dc now data sm =
           (LoadedSession \<lparr>cookies = cookies s, tokens = Some (sessionTokens s), expiresAt = expiresAt s\<rparr>,
            sm\<lparr>session := Some \<lparr>cookies = cookies s, tokens = Some (sessionTokens s),
                                 expiresAt = expiresAt s\<rparr>\<rparr>)"
proof (cases "expiresAt s")
  case None
  with data have d: "data = JObj ([(''cookies'', JArr (map JStr (cookies s)))]
                     @ (case tokens s of
                          Some t \<Rightarrow> [(''tokens'', JObj (map (\<lambda>kv. (fst kv, JStr (snd kv))) t))]
                        | None \<Rightarrow> []))"
    by (auto simp: sessionData_def)
  show ?thesis
    unfolding d sessionFromData_def Let_def
    using None
    by (cases "tokens s")
       (simp_all add: orDefault_def those_strings those_tokens sessionTokens_def)
next
  case (Some d0)
  with valid obtain t where t: "expiresAt s = Some (Instant t)" by (cases d0) auto
  with codec have c: "parseDate dc (toISOString dc t) = Instant t" "toISOString dc t \<noteq> []" by auto
  from fresh t have nf: "\<not> now \<ge> t" by (simp add: isExpiredForSession_def)
  from data t have d: "data = JObj ([(''cookies'', JArr (map JStr (cookies s)))]
                     @ (case tokens s of
                          Some ts \<Rightarrow> [(''tokens'', JObj (map (\<lambda>kv. (fst kv, JStr (snd kv))) ts))]
                        | None \<Rightarrow> [])
                     @ [(''expiresAt'', JStr (toISOString dc t))])"
    by (auto simp: sessionData_def)
  show ?thesis
    unfolding d sessionFromData_def Let_def
    using t c nf
    by (cases "tokens s")
       (simp_all add: orDefault_def those_strings those_tokens sessionTokens_def newDate_def)
qed

lemma sessionData_valid:
  "expiresAt s \<noteq> Some InvalidDate \<Longrightarrow> \<exists>data. sessionData dc s = Inr data"
  by (auto simp: sessionData_def split: option.splits Date.splits)

lemma sessionFromData_expired:
  assumes codec: "\<forall>t. expiresAt s = Some (Instant t) \<longrightarrow>
                  parseDate dc (toISOString dc t) = Instant t \<and> toISOString dc t \<noteq> []"
    and stale: "isExpiredForSession now s"
    and data: "sessionData dc s = Inr data"
  shows "sessionFromData dc now data sm = (LoadedNull, sm)"
proof -
  from stale obtain t where t: "expiresAt s = Some (Instant t)" and late: "now \<ge> t"
    by (auto simp: isExpiredForSession_def split: option.splits Date.splits)
  with codec have c: "parseDate dc (toISOString dc t) = Instant t" "toISOString dc t \<noteq> []" by auto
  from data t have d: "data = JObj ([(''cookies'', JArr (map JStr (cookies s)))]
                     @ (case tokens s of
                          Some ts \<Rightarrow> [(''tokens'', JObj (map (\<lambda>kv. (fst kv, JStr (snd kv))) ts))]
                        | None \<Rightarrow> [])
                     @ [(''expiresAt'', JStr (toISOString dc t))])"
    by (auto simp: sessionData_def)
  show ?thesis
    unfolding d sessionFromData_def Let_def
    using c late
    by (cases "tokens s") (simp_all add: newDate_def)
qed

text \<open>
  C7 (amended). Let a manager with a writable session file hold a session whose expiry is
  absent or a valid date that \<^verbatim>\<open>toISOString\<close> and \<^verbatim>\<open>new Date\<close> carry back to the same
  instant. If the session is not expired when it is loaded, \<^verbatim>\<open>saveSession\<close> followed by
  \<^verbatim>\<open>loadSession\<close> yields a session with the same cookies, tokens and expiry, so that
  \<^verbatim>\<open>isExpired\<close> agrees with the original at every instant; if it is expired by then,
  \<^verbatim>\<open>loadSession\<close> returns null. A file that is missing, unreadable, not JSON, or the
  JSON \<^verbatim>\<open>null\<close> yields null; \<^verbatim>\<open>loadSession\<close> always returns.
\<close>

theorem save_then_load:
  assumes path: "sessionFilePath sm = Some p" "p \<noteq> []"
    and held: "session sm = Some s"
    and writable: "p \<notin> set (readOnly fs)"
    and valid: "expiresAt s \<noteq> Some InvalidDate"
    and codec: "\<forall>t. expiresAt s = Some (Instant t) \<longrightarrow>
                  parseDate dc (toISOString dc t) = Instant t \<and> toISOString dc t \<noteq> []"
    and reader: "sessionFilePath sm' = Some p"
  shows "(\<not> isExpiredForSession now s \<longrightarrow>
            (\<exists>s'. loadSession dc now sm' (saveSession dc sm fs)
                     = (LoadedSession s', sm'\<lparr>session := Some s'\<rparr>)
               \<and> cookies s' = cookies s \<and> sessionTokens s' = sessionTokens s
               \<and> expiresAt s' = expiresAt s
               \<and> (\<forall>t. isExpiredForSession t s' = isExpiredForSession t s)))
       \<and> (isExpiredForSession now s \<longrightarrow>
            loadSession dc now sm' (saveSession dc sm fs) = (LoadedNull, sm'))
       \<and> (\<forall>fs' txt. map_of (files fs') p
                        \<in> {None, Some Unreadable, Some (NotJson txt), Some (JsonText JNull)}
             \<longrightarrow> loadSession dc now sm' fs' = (LoadedNull, sm'))"
proof -
  from sessionData_valid[OF valid] obtain data where data: "sessionData dc s = Inr data" by blast
  let ?s' = "\<lparr>cookies = cookies s, tokens = Some (sessionTokens s), expiresAt = expiresAt s\<rparr>"
  have rd: "loadSession dc now sm' (saveSession dc sm fs) = sessionFromData dc now data sm'"
    by (rule loadSession_reads[OF reader path(2) saveSession_writes[OF path held writable data]])
  have same: "cookies ?s' = cookies s \<and> sessionTokens ?s' = sessionTokens s \<and> expiresAt ?s' = expiresAt s
     \<and> (\<forall>t. isExpiredForSession t ?s' = isExpiredForSession t s)"
    by (simp add: sessionTokens_def isExpiredForSession_def)
  have good: "\<not> isExpiredForSession now s \<longrightarrow>
            (\<exists>s'. loadSession dc now sm' (saveSession dc sm fs)
                     = (LoadedSession s', sm'\<lparr>session := Some s'\<rparr>)
               \<and> cookies s' = cookies s \<and> sessionTokens s' = sessionTokens s
               \<and> expiresAt s' = expiresAt s
               \<and> (\<forall>t. isExpiredForSession t s' = isExpiredForSession t s))"
  proof
    assume fresh: "\<not> isExpiredForSession now s"
    have "loadSession dc now sm' (saveSession dc sm fs) = (LoadedSession ?s', sm'\<lparr>session := Some ?s'\<rparr>)"
      unfolding rd by (rule sessionFromData_roundtrip[OF valid codec fresh data])
    with same show "\<exists>s'. loadSession dc now sm' (saveSession dc sm fs)
                     = (LoadedSession s', sm'\<lparr>session := Some s'\<rparr>)
               \<and> cookies s' = cookies s \<and> sessionTokens s' = sessionTokens s
               \<and> expiresAt s' = expiresAt s
               \<and> (\<forall>t. isExpiredForSession t s' = isExpiredForSession t s)"
      by blast
  qed
  have stale: "isExpiredForSession now s \<longrightarrow>
            loadSession dc now sm' (saveSession dc sm fs) = (LoadedNull, sm')"
    unfolding rd using sessionFromData_expired[OF codec _ data] by blast
  have bad: "\<forall>fs' txt. map_of (files fs') p \<in> {None, Some Unreadable, Some (NotJson txt), Some (JsonText JNull)}
             \<longrightarrow> loadSession dc now sm' fs' = (LoadedNull, sm')"
    using reader by (auto simp: loadSession_def existsSync_def sessionFromData_def)
  from good stale bad show ?thesis by blast
qed

lemmas disk_defs =
  loadSession_def saveSession_def sessionData_def sessionFromData_def existsSync_def
  savedManager_def emptyDisk_def exampleDates_def orDefault_def newDate_def

theorem save_then_load_witness:
  "(\<exists>s'. fst (loadSession exampleDates 1766400000000 savedManager
                (saveSession exampleDates savedManager emptyDisk)) = LoadedSession s'
         \<and> cookies s' = [''sessionid=abc'']
         \<and> sessionTokens s' = [(''csrf'', ''tok123'')]
         \<and> expiresAt s' = Some (Instant 1767225600000))
   \<and> loadSession exampleDates 1766400000000 savedManager
       \<lparr>files = [(''.session-wellsky.json'', NotJson ''{cookies: ['')], readOnly = []\<rparr>
     = (LoadedNull, savedManager)"
proof -
  let ?s = "\<lparr>cookies = [''sessionid=abc''], tokens = Some [(''csrf'', ''tok123'')],
             expiresAt = Some (Instant 1767225600000)\<rparr>"
  let ?p = "''.session-wellsky.json''"
  have p: "sessionFilePath savedManager = Some ?p" "?p \<noteq> []"
    by (simp_all add: savedManager_def)
  have s: "session savedManager = Some ?s" by (simp add: savedManager_def)
  have w: "?p \<notin> set (readOnly emptyDisk)" by (simp add: emptyDisk_def)
  have v: "expiresAt ?s \<noteq> Some InvalidDate" by simp
  have c: "\<forall>t. expiresAt ?s = Some (Instant t) \<longrightarrow>
             parseDate exampleDates (toISOString exampleDates t) = Instant t
             \<and> toISOString exampleDates t \<noteq> []"
    by (simp add: exampleDates_def)
  have f: "\<not> isExpiredForSession 1766400000000 ?s" by (simp add: isExpiredForSession_def)
  note main = save_then_load[OF p s w v c p(1), of 1766400000000]
  from main f obtain s' where
    "loadSession exampleDates 1766400000000 savedManager
       (saveSession exampleDates savedManager emptyDisk)
     = (LoadedSession s', savedManager\<lparr>session := Some s'\<rparr>)"
    "cookies s' = cookies ?s" "sessionTokens s' = sessionTokens ?s" "expiresAt s' = expiresAt ?s"
    by blast
  then have first: "\<exists>s'. fst (loadSession exampleDates 1766400000000 savedManager
                (saveSession exampleDates savedManager emptyDisk)) = LoadedSession s'
         \<and> cookies s' = [''sessionid=abc'']
         \<and> sessionTokens s' = [(''csrf'', ''tok123'')]
         \<and> expiresAt s' = Some (Instant 1767225600000)"
    by (simp add: sessionTokens_def)
  from main have "\<forall>fs' txt. map_of (files fs') ?p \<in> {None, Some Unreadable, Some (NotJson txt), Some (JsonText JNull)}
             \<longrightarrow> loadSession exampleDates 1766400000000 savedManager fs' = (LoadedNull, savedManager)"
    by blast
  then have "map_of (files \<lparr>files = [(?p, NotJson ''{cookies: ['')], readOnly = []\<rparr>) ?p
               \<in> {None, Some Unreadable, Some (NotJson ''{cookies: [''), Some (JsonText JNull)}
     \<longrightarrow> loadSession exampleDates 1766400000000 savedManager
           \<lparr>files = [(?p, NotJson ''{cookies: ['')], readOnly = []\<rparr> = (LoadedNull, savedManager)"
    by blast
  then have second: "loadSession exampleDates 1766400000000 savedManager
       \<lparr>files = [(?p, NotJson ''{cookies: ['')], readOnly = []\<rparr> = (LoadedNull, savedManager)"
    by simp
  from first second show ?thesis by blast
qed

text \<open>
  The claim as stated fails twice over: a session that has expired by the time it is loaded
  comes back as null, not as a session with the same verdict; and a file holding the JSON
  text \<^verbatim>\<open>42\<close>, malformed as a session, comes back as an empty session, not as null.
\<close>

theorem save_then_load_counterexample:
  "isExpired 1767225600000 savedManager
   \<and> fst (loadSession exampleDates 1767225600000 savedManager
            (saveSession exampleDates savedManager emptyDisk)) = LoadedNull
   \<and> fst (loadSession exampleDates 1766400000000 savedManager
            \<lparr>files = [(''.session-wellsky.json'', JsonText (JNum 42))], readOnly = []\<rparr>)
       = LoadedSession \<lparr>cookies = [], tokens = Some [], expiresAt = None\<rparr>"
  by (simp add: disk_defs isExpired_def isExpiredForSession_def Let_def)


end
